theory Spec2Isabelle
  imports Main "HOL-Library.Word" "HOL-Library.Code_Target_Nat"
begin

section \<open>Buffers, text and numbers\<close>

text \<open>
  An ArrayBuffer is a list of bytes; a byte is a \<^typ>\<open>char\<close> (eight bits).
  \<^verbatim>\<open>new TextDecoder('ascii')\<close> selects the windows-1252 decoder, which turns every byte
  into exactly one code unit, injectively and as the identity on the ASCII range. The
  decoded text is therefore represented by the byte list itself: indices into the text
  are byte offsets, and comparing with an ASCII literal is comparing bytes.
\<close>

type_synonym buffer = "char list"

text \<open>
  The bytes whose decoded character is matched by the regular expression class
  \<^verbatim>\<open>\s\<close> and removed by \<^verbatim>\<open>trim()\<close>: TAB, LF, VT, FF, CR, SPACE and
  0xA0 (decoded as U+00A0, the no-break space).
\<close>

definition is_ws :: "char \<Rightarrow> bool" where
  "is_ws c \<longleftrightarrow> c \<in> {CHR 0x09, CHR 0x0A, CHR 0x0B, CHR 0x0C, CHR 0x0D, CHR 0x20, CHR 0xA0}"

text \<open>
  JavaScript numbers, kept symbolic: a value read from binary data is named by its bit
  pattern, a parsed token by its text, and the two arithmetic steps of the loader
  (division by 255.0, rounding to single precision on a store into a Float32Array) are
  constructors. No floating-point arithmetic is evaluated.
\<close>

datatype jsnum =
    IntV int              \<comment> \<open>an integer value\<close>
  | F32 "32 word"         \<comment> \<open>the single-precision float with these bits\<close>
  | F64 "64 word"         \<comment> \<open>the double-precision float with these bits\<close>
  | ParsedFloat string    \<comment> \<open>\<^verbatim>\<open>parseFloat(token)\<close>\<close>
  | NaN                   \<comment> \<open>\<^verbatim>\<open>parseFloat(undefined)\<close>\<close>
  | Div255 jsnum          \<comment> \<open>\<^verbatim>\<open>value / 255.0\<close>\<close>
  | Fround jsnum          \<comment> \<open>the value rounded to single precision\<close>

text \<open>
  A store into a Float32Array rounds to single precision. A single-precision value and
  an integer of magnitude at most \<open>2 ^ 24\<close> are stored unchanged.
\<close>

fun fround :: "jsnum \<Rightarrow> jsnum" where
  "fround (F32 w) = F32 w"
| "fround (IntV i) = (if \<bar>i\<bar> \<le> 2 ^ 24 then IntV i else Fround (IntV i))"
| "fround (Fround v) = Fround v"
| "fround v = Fround v"

datatype error =
    NoEndHeader           \<comment> \<open>\<^verbatim>\<open>PLY header does not contain "end_header".\<close>\<close>
  | FormatNotSpecified    \<comment> \<open>\<^verbatim>\<open>PLY format not specified in header.\<close>\<close>
  | VertexElementMissing  \<comment> \<open>\<^verbatim>\<open>PLY vertex element not found or vertex count is 0.\<close>\<close>
  | NoPositionProperties  \<comment> \<open>\<^verbatim>\<open>PLY vertex does not contain x/y/z properties.\<close>\<close>
  | UnsupportedFormat string  \<comment> \<open>\<^verbatim>\<open>Unsupported PLY format: ${format}\<close>\<close>
  | RangeError            \<comment> \<open>raised by the typed-array and DataView built-ins\<close>

text \<open>The errors the loader raises itself with \<^verbatim>\<open>throw new Error(...)\<close>.\<close>

fun is_format_error :: "error \<Rightarrow> bool" where
  "is_format_error RangeError = False"
| "is_format_error _ = True"

subsection \<open>Typed arrays\<close>

text \<open>
  \<^verbatim>\<open>new Float32Array(n)\<close> raises a RangeError for a negative length and for one
  above \<open>2 ^ 53 - 1\<close>. Below that bound an engine may still refuse the allocation
  (its own length limit, lack of memory); that decision is not in the source and is a
  parameter: \<open>granted n\<close> says whether the engine grants \<open>n\<close> entries. A granted
  array holds \<open>n\<close> zeros.
\<close>

definition max_array_length :: int where
  "max_array_length = 2 ^ 53 - 1"

definition newFloat32ArrayOn :: "(int \<Rightarrow> bool) \<Rightarrow> int \<Rightarrow> error + jsnum list" where
  "newFloat32ArrayOn granted n =
     (if n < 0 \<or> max_array_length < n \<or> \<not> granted n then Inl RangeError
      else Inr (replicate (nat n) (IntV 0)))"

text \<open>The constructor on an engine that grants every length up to the bound.\<close>

definition newFloat32Array :: "int \<Rightarrow> error + jsnum list" where
  "newFloat32Array n =
     (if n < 0 \<or> max_array_length < n then Inl RangeError
      else Inr (replicate (nat n) (IntV 0)))"

text \<open>
  The value of a byte sequence read as an unsigned little-endian number.
\<close>

fun le_int :: "char list \<Rightarrow> int" where
  "le_int [] = 0"
| "le_int (c # cs) = of_char c + 256 * le_int cs"

text \<open>
  \<^verbatim>\<open>new Float32Array(buffer)\<close>: a view of the whole buffer as 32-bit floats in the
  platform's byte order (little-endian here); a RangeError when the byte length is not a
  multiple of 4.
\<close>

fun float32_elems :: "char list \<Rightarrow> jsnum list" where
  "float32_elems (a # b # c # d # rest) = F32 (of_int (le_int [a, b, c, d])) # float32_elems rest"
| "float32_elems _ = []"

definition float32_view :: "buffer \<Rightarrow> error + jsnum list" where
  "float32_view buffer =
     (if length buffer mod 4 \<noteq> 0 then Inl RangeError else Inr (float32_elems buffer))"

subsection \<open>String operations\<close>

definition startsWith :: "string \<Rightarrow> string \<Rightarrow> bool" where
  "startsWith s p \<longleftrightarrow> take (length p) s = p"

text \<open>\<^verbatim>\<open>s.indexOf(p)\<close>, with \<open>None\<close> for -1.\<close>

fun indexOf :: "string \<Rightarrow> string \<Rightarrow> nat option" where
  "indexOf [] p = (if p = [] then Some 0 else None)"
| "indexOf (c # cs) p =
     (if startsWith (c # cs) p then Some 0 else map_option Suc (indexOf cs p))"

text \<open>\<^verbatim>\<open>s.split(/\r?\n/)\<close>\<close>

fun split_lines :: "string \<Rightarrow> string list" where
  "split_lines [] = [[]]"
| "split_lines [c] = (if c = CHR 0x0A then [[], []] else [[c]])"
| "split_lines (c # d # cs) =
     (if c = CHR 0x0D \<and> d = CHR 0x0A then [] # split_lines cs
      else if c = CHR 0x0A then [] # split_lines (d # cs)
      else (case split_lines (d # cs) of
              [] \<Rightarrow> [[c]]
            | l # ls \<Rightarrow> (c # l) # ls))"

text \<open>\<^verbatim>\<open>s.trim()\<close>\<close>

definition trim :: "string \<Rightarrow> string" where
  "trim s = rev (dropWhile is_ws (rev (dropWhile is_ws s)))"

text \<open>\<^verbatim>\<open>s.split(/\s+/)\<close>\<close>

function split_ws :: "string \<Rightarrow> string list" where
  "split_ws [] = [[]]"
| "split_ws (c # cs) =
     (if is_ws c then [] # split_ws (dropWhile is_ws cs)
      else (case split_ws cs of
              [] \<Rightarrow> [[c]]
            | t # ts \<Rightarrow> (c # t) # ts))"
  by pat_completeness auto
termination
  by (relation "measure length") (auto simp: length_dropWhile_le less_Suc_eq_le)

text \<open>\<^verbatim>\<open>s.search(/\S|$/)\<close>: the index of the first non-whitespace character, or the length.\<close>

definition search_nonws :: "string \<Rightarrow> nat" where
  "search_nonws s = length (takeWhile is_ws s)"

text \<open>\<^verbatim>\<open>a[i]\<close>, with \<open>None\<close> for undefined.\<close>

definition nth_opt :: "'a list \<Rightarrow> nat \<Rightarrow> 'a option" where
  "nth_opt xs i = (if i < length xs then Some (xs ! i) else None)"

text \<open>\<^verbatim>\<open>a.indexOf(v)\<close> on an array, with \<open>None\<close> for -1.\<close>

fun array_indexOf :: "'a list \<Rightarrow> 'a \<Rightarrow> nat option" where
  "array_indexOf [] v = None"
| "array_indexOf (x # xs) v = (if x = v then Some 0 else map_option Suc (array_indexOf xs v))"

text \<open>
  \<^verbatim>\<open>parseInt(t, 10)\<close> with \<open>None\<close> for NaN: leading whitespace and one sign are
  skipped, then the longest run of decimal digits is read. The value is the exact
  integer (JavaScript rounds it to a double above \<open>2 ^ 53\<close>, where every array
  allocation fails either way); \<^verbatim>\<open>-0\<close> is 0, and both are falsy.
\<close>

definition is_digit :: "char \<Rightarrow> bool" where
  "is_digit c \<longleftrightarrow> (48::nat) \<le> of_char c \<and> of_char c \<le> (57::nat)"

definition digits_value :: "string \<Rightarrow> int" where
  "digits_value ds = foldl (\<lambda>a c. 10 * a + (int (of_char c) - 48)) 0 ds"

definition parseInt :: "string option \<Rightarrow> int option" where
  "parseInt t =
     (case t of
        None \<Rightarrow> None
      | Some s \<Rightarrow>
          (let s1 = dropWhile is_ws s;
               neg = (s1 \<noteq> [] \<and> hd s1 = CHR ''-'');
               s2 = (if s1 \<noteq> [] \<and> (hd s1 = CHR ''+'' \<or> hd s1 = CHR ''-'') then tl s1 else s1);
               ds = takeWhile is_digit s2
           in if ds = [] then None
              else Some ((if neg then - 1 else 1) * digits_value ds)))"

text \<open>\<^verbatim>\<open>parseFloat(t)\<close>, symbolic.\<close>

definition parseFloat :: "string option \<Rightarrow> jsnum" where
  "parseFloat t = (case t of None \<Rightarrow> NaN | Some s \<Rightarrow> ParsedFloat s)"

section \<open>The header loop of parsePly\<close>

text \<open>
  The local variables of the header loop. \<open>format\<close> is \<open>None\<close> for null and
  undefined; \<open>vertexCount\<close> is \<open>None\<close> for NaN; a property type is \<open>None\<close> when
  the line \<^verbatim>\<open>property\<close> has no second token.
\<close>

record header =
  format :: "string option"
  vertexCount :: "int option"
  vertexPropertyOrder :: "string list"
  vertexPropertyTypes :: "string option list"
  inVertexElement :: bool

definition header_init :: header where
  "header_init = \<lparr>format = None, vertexCount = Some 0, vertexPropertyOrder = [],
     vertexPropertyTypes = [], inVertexElement = False\<rparr>"

text \<open>One iteration of \<^verbatim>\<open>for (const line of headerLines)\<close>.\<close>

definition header_step :: "header \<Rightarrow> string \<Rightarrow> header" where
  "header_step st line =
     (let tokens = split_ws (trim line);
          t0 = nth_opt tokens 0;
          t1 = nth_opt tokens 1
      in if tokens = [] then st
         else
           let st1 = (if t0 = Some ''format'' then st\<lparr>format := t1\<rparr> else st)
           in if t0 = Some ''element'' \<and> t1 = Some ''vertex''
              then st1\<lparr>vertexCount := parseInt (nth_opt tokens 2), inVertexElement := True\<rparr>
              else
                let st2 = (if t0 = Some ''element'' \<and> t1 \<noteq> Some ''vertex''
                           then st1\<lparr>inVertexElement := False\<rparr> else st1)
                in if inVertexElement st2 \<and> t0 = Some ''property''
                   then st2\<lparr>vertexPropertyOrder := vertexPropertyOrder st2 @ [last tokens],
                            vertexPropertyTypes := vertexPropertyTypes st2 @ [t1]\<rparr>
                   else st2)"

definition parse_header_lines :: "string list \<Rightarrow> header" where
  "parse_header_lines headerLines = foldl header_step header_init headerLines"

section \<open>The scalar codec\<close>

text \<open>
  A DataView over \<open>view\<close>: a read of \<open>n\<close> bytes at \<open>offset\<close> raises a RangeError when
  it passes the end of the view.
\<close>

definition view_bytes :: "char list \<Rightarrow> nat \<Rightarrow> nat \<Rightarrow> bool \<Rightarrow> error + int" where
  "view_bytes view offset n littleEndian =
     (if length view < offset + n then Inl RangeError
      else let bs = take n (drop offset view)
           in Inr (le_int (if littleEndian then bs else rev bs)))"

text \<open>The two's complement reading of an unsigned \<open>w\<close>-bit value.\<close>

definition signed :: "nat \<Rightarrow> int \<Rightarrow> int" where
  "signed w n = (if 2 ^ (w - 1) \<le> n then n - 2 ^ w else n)"

definition getFloat32 :: "char list \<Rightarrow> nat \<Rightarrow> bool \<Rightarrow> error + jsnum" where
  "getFloat32 view offset le = map_sum id (\<lambda>n. F32 (of_int n)) (view_bytes view offset 4 le)"

definition getFloat64 :: "char list \<Rightarrow> nat \<Rightarrow> bool \<Rightarrow> error + jsnum" where
  "getFloat64 view offset le = map_sum id (\<lambda>n. F64 (of_int n)) (view_bytes view offset 8 le)"

definition getUint :: "nat \<Rightarrow> char list \<Rightarrow> nat \<Rightarrow> bool \<Rightarrow> error + jsnum" where
  "getUint nbytes view offset le =
     map_sum id IntV (view_bytes view offset nbytes le)"

definition getInt :: "nat \<Rightarrow> char list \<Rightarrow> nat \<Rightarrow> bool \<Rightarrow> error + jsnum" where
  "getInt nbytes view offset le =
     map_sum id (\<lambda>n. IntV (signed (8 * nbytes) n)) (view_bytes view offset nbytes le)"

definition readProperty :: "char list \<Rightarrow> string option \<Rightarrow> nat \<Rightarrow> bool \<Rightarrow> error + jsnum" where
  "readProperty bufferView type offset littleEndian =
     (if type = Some ''float'' \<or> type = Some ''float32'' then getFloat32 bufferView offset littleEndian
      else if type = Some ''double'' \<or> type = Some ''float64'' then getFloat64 bufferView offset littleEndian
      else if type = Some ''uchar'' \<or> type = Some ''uint8'' then getUint 1 bufferView offset littleEndian
      else if type = Some ''char'' \<or> type = Some ''int8'' then getInt 1 bufferView offset littleEndian
      else if type = Some ''ushort'' \<or> type = Some ''uint16'' then getUint 2 bufferView offset littleEndian
      else if type = Some ''short'' \<or> type = Some ''int16'' then getInt 2 bufferView offset littleEndian
      else if type = Some ''uint'' \<or> type = Some ''uint32'' then getUint 4 bufferView offset littleEndian
      else if type = Some ''int'' \<or> type = Some ''int32'' then getInt 4 bufferView offset littleEndian
      else getFloat32 bufferView offset littleEndian)"

definition propertySize :: "string option \<Rightarrow> nat" where
  "propertySize type =
     (if type \<in> {Some ''float'', Some ''float32'', Some ''int'', Some ''int32'',
                  Some ''uint'', Some ''uint32''} then 4
      else if type \<in> {Some ''double'', Some ''float64''} then 8
      else if type \<in> {Some ''short'', Some ''int16'', Some ''ushort'', Some ''uint16''} then 2
      else if type \<in> {Some ''char'', Some ''int8'', Some ''uchar'', Some ''uint8''} then 1
      else 4)"

section \<open>The point decoder\<close>

text \<open>
  The indices computed after the header loop; \<open>None\<close> is -1. For a colour channel the
  long name is looked up first and the single letter only when the long name is absent.
\<close>

record indices =
  xIndex :: "nat option"
  yIndex :: "nat option"
  zIndex :: "nat option"
  rIndex :: "nat option"
  gIndex :: "nat option"
  bIndex :: "nat option"

definition colour_index :: "string list \<Rightarrow> string \<Rightarrow> string \<Rightarrow> nat option" where
  "colour_index order long short =
     (if array_indexOf order long \<noteq> None then array_indexOf order long
      else array_indexOf order short)"

definition property_indices :: "string list \<Rightarrow> indices" where
  "property_indices order =
     \<lparr>xIndex = array_indexOf order ''x'',
      yIndex = array_indexOf order ''y'',
      zIndex = array_indexOf order ''z'',
      rIndex = colour_index order ''red'' ''r'',
      gIndex = colour_index order ''green'' ''g'',
      bIndex = colour_index order ''blue'' ''b''\<rparr>"

definition hasColor :: "indices \<Rightarrow> bool" where
  "hasColor ix \<longleftrightarrow> rIndex ix \<noteq> None \<and> gIndex ix \<noteq> None \<and> bIndex ix \<noteq> None"

text \<open>\<^verbatim>\<open>tokens[i]\<close> for an index that may be -1.\<close>

definition token_at :: "string list \<Rightarrow> nat option \<Rightarrow> string option" where
  "token_at tokens i = (case i of None \<Rightarrow> None | Some k \<Rightarrow> nth_opt tokens k)"

text \<open>
  Writing the three components of point \<open>v\<close> into a Float32Array. A write past the end
  of a typed array is ignored, as \<open>list_update\<close> does.
\<close>

definition store3 :: "jsnum list \<Rightarrow> nat \<Rightarrow> jsnum \<Rightarrow> jsnum \<Rightarrow> jsnum \<Rightarrow> jsnum list" where
  "store3 arr v a b c =
     arr[3 * v + 0 := fround a, 3 * v + 1 := fround b, 3 * v + 2 := fround c]"

subsection \<open>Text mode\<close>

text \<open>
  The loop over the lines of the data section, with the loop variable \<open>v\<close> and the two
  arrays as state. \<^verbatim>\<open>continue\<close> is the recursive call on the remaining lines,
  \<^verbatim>\<open>break\<close> returns the arrays.
\<close>

fun ascii_loop ::
  "nat \<Rightarrow> nat \<Rightarrow> indices \<Rightarrow> string list \<Rightarrow> nat \<Rightarrow> jsnum list \<Rightarrow> jsnum list
     \<Rightarrow> jsnum list \<times> jsnum list" where
  "ascii_loop vcount nprops ix [] v positions colors = (positions, colors)"
| "ascii_loop vcount nprops ix (line # lines) v positions colors =
     (if trim line = [] then ascii_loop vcount nprops ix lines v positions colors
      else
        let tokens = split_ws (trim line)
        in if length tokens < nprops then ascii_loop vcount nprops ix lines v positions colors
           else if vcount \<le> v then (positions, colors)
           else
             let positions' = store3 positions v
                   (parseFloat (token_at tokens (xIndex ix)))
                   (parseFloat (token_at tokens (yIndex ix)))
                   (parseFloat (token_at tokens (zIndex ix)));
                 colors' =
                   (if hasColor ix
                    then store3 colors v
                           (Div255 (parseFloat (token_at tokens (rIndex ix))))
                           (Div255 (parseFloat (token_at tokens (gIndex ix))))
                           (Div255 (parseFloat (token_at tokens (bIndex ix))))
                    else store3 colors v (IntV 1) (IntV 1) (IntV 1))
             in ascii_loop vcount nprops ix lines (Suc v) positions' colors')"

subsection \<open>Binary mode\<close>

text \<open>The six locals \<^verbatim>\<open>x, y, z, r, g, b\<close> of one iteration of the vertex loop.\<close>

record vertex =
  vx :: jsnum
  vy :: jsnum
  vz :: jsnum
  vr :: jsnum
  vg :: jsnum
  vb :: jsnum

definition vertex_init :: vertex where
  "vertex_init = \<lparr>vx = IntV 0, vy = IntV 0, vz = IntV 0, vr = IntV 1, vg = IntV 1, vb = IntV 1\<rparr>"

text \<open>The assignments made for one property, in the order of the source.\<close>

definition assign_property :: "bool \<Rightarrow> string \<Rightarrow> jsnum \<Rightarrow> vertex \<Rightarrow> vertex" where
  "assign_property hasCol name val a =
     (let a1 = (if name = ''x'' then a\<lparr>vx := val\<rparr> else a);
          a2 = (if name = ''y'' then a1\<lparr>vy := val\<rparr> else a1);
          a3 = (if name = ''z'' then a2\<lparr>vz := val\<rparr> else a2)
      in if hasCol
         then
           let a4 = (if name = ''red'' \<or> name = ''r'' then a3\<lparr>vr := Div255 val\<rparr> else a3);
               a5 = (if name = ''green'' \<or> name = ''g'' then a4\<lparr>vg := Div255 val\<rparr> else a4);
               a6 = (if name = ''blue'' \<or> name = ''b'' then a5\<lparr>vb := Div255 val\<rparr> else a5)
           in a6
         else a3)"

text \<open>
  The inner loop over the declared properties (names and types are pushed together, so
  the two arrays are walked as one list of pairs), with \<open>propertyOffset\<close> and the six
  locals as state. A read past the end of the view raises.
\<close>

fun read_vertex ::
  "char list \<Rightarrow> bool \<Rightarrow> bool \<Rightarrow> (string \<times> string option) list \<Rightarrow> nat \<Rightarrow> vertex
     \<Rightarrow> error + vertex" where
  "read_vertex bufferView little hasCol [] propertyOffset a = Inr a"
| "read_vertex bufferView little hasCol ((name, type) # props) propertyOffset a =
     (case readProperty bufferView type propertyOffset little of
        Inl e \<Rightarrow> Inl e
      | Inr val \<Rightarrow>
          read_vertex bufferView little hasCol props (propertyOffset + propertySize type)
            (assign_property hasCol name val a))"

definition bytesPerVertex :: "string option list \<Rightarrow> nat" where
  "bytesPerVertex types = foldl (\<lambda>acc t. acc + propertySize t) 0 types"

text \<open>
  The loop \<^verbatim>\<open>for (let v = 0; v < vertexCount; v++)\<close>; the first argument counts the
  iterations that remain.
\<close>

fun binary_loop ::
  "nat \<Rightarrow> char list \<Rightarrow> bool \<Rightarrow> bool \<Rightarrow> (string \<times> string option) list \<Rightarrow> nat
     \<Rightarrow> nat \<Rightarrow> nat \<Rightarrow> jsnum list \<Rightarrow> jsnum list \<Rightarrow> error + jsnum list \<times> jsnum list" where
  "binary_loop 0 bufferView little hasCol props stride v offset positions colors =
     Inr (positions, colors)"
| "binary_loop (Suc n) bufferView little hasCol props stride v offset positions colors =
     (case read_vertex bufferView little hasCol props offset vertex_init of
        Inl e \<Rightarrow> Inl e
      | Inr a \<Rightarrow>
          binary_loop n bufferView little hasCol props stride (Suc v) (offset + stride)
            (store3 positions v (vx a) (vy a) (vz a))
            (store3 colors v (vr a) (vg a) (vb a)))"

subsection \<open>The raw copy loop\<close>

text \<open>The copy loop of the raw branch, \<open>i\<close> running from 0 below \<open>count\<close>.\<close>

fun raw_loop :: "nat \<Rightarrow> jsnum list \<Rightarrow> nat \<Rightarrow> jsnum list \<Rightarrow> jsnum list
    \<Rightarrow> jsnum list \<times> jsnum list" where
  "raw_loop 0 floats i positions colors = (positions, colors)"
| "raw_loop (Suc n) floats i positions colors =
     raw_loop n floats (Suc i)
       (store3 positions i (floats ! (6 * i + 0)) (floats ! (6 * i + 1)) (floats ! (6 * i + 2)))
       (store3 colors i (floats ! (6 * i + 3)) (floats ! (6 * i + 4)) (floats ! (6 * i + 5)))"

section \<open>parsePly\<close>

record pointset =
  positions :: "jsnum list"
  colors :: "jsnum list"
  count :: nat

text \<open>The header text, up to and including the terminator, and the parsed header.\<close>

definition textHeader :: "buffer \<Rightarrow> string" where
  "textHeader buffer = take (1024 * 64) buffer"

definition headerEndIndex :: "buffer \<Rightarrow> nat option" where
  "headerEndIndex buffer = indexOf (textHeader buffer) ''end_header''"

definition headerLength :: "buffer \<Rightarrow> nat" where
  "headerLength buffer = the (headerEndIndex buffer) + length ''end_header''"

definition ply_header :: "buffer \<Rightarrow> header" where
  "ply_header buffer =
     parse_header_lines (split_lines (take (headerLength buffer) (textHeader buffer)))"

definition dataStart :: "buffer \<Rightarrow> nat" where
  "dataStart buffer =
     headerLength buffer + search_nonws (drop (headerLength buffer) (textHeader buffer))"

text \<open>The lines of the data section in text mode.\<close>

definition data_lines :: "buffer \<Rightarrow> string list" where
  "data_lines buffer = split_lines (drop (dataStart buffer) buffer)"

text \<open>\<^verbatim>\<open>!format\<close> and \<^verbatim>\<open>!vertexCount\<close>.\<close>

definition format_falsy :: "string option \<Rightarrow> bool" where
  "format_falsy f \<longleftrightarrow> f = None \<or> f = Some []"

definition count_falsy :: "int option \<Rightarrow> bool" where
  "count_falsy n \<longleftrightarrow> n = None \<or> n = Some 0"

text \<open>
  The body of parsePly after the header loop, as a function of the parsed header and of
  the offset of the data section.
\<close>

definition decode_points :: "header \<Rightarrow> buffer \<Rightarrow> nat \<Rightarrow> error + pointset" where
  "decode_points h buffer start =
     (if format_falsy (format h) then Inl FormatNotSpecified
      else if count_falsy (vertexCount h) then Inl VertexElementMissing
      else
        let bufferView = drop start buffer;
            isLittleEndian = (format h = Some ''binary_little_endian'');
            ix = property_indices (vertexPropertyOrder h);
            vc = the (vertexCount h)
        in if xIndex ix = None \<or> yIndex ix = None \<or> zIndex ix = None
           then Inl NoPositionProperties
           else
             (case newFloat32Array (vc * 3) of
                Inl e \<Rightarrow> Inl e
              | Inr positions0 \<Rightarrow>
             (case newFloat32Array (vc * 3) of
                Inl e \<Rightarrow> Inl e
              | Inr colors0 \<Rightarrow>
                  if format h = Some ''ascii''
                  then
                    (case ascii_loop (nat vc) (length (vertexPropertyOrder h)) ix
                            (split_lines (drop start buffer)) 0 positions0 colors0 of
                       (ps, cs) \<Rightarrow> Inr \<lparr>positions = ps, colors = cs, count = nat vc\<rparr>)
                  else if format h = Some ''binary_little_endian''
                          \<or> format h = Some ''binary_big_endian''
                  then
                    (case binary_loop (nat vc) bufferView isLittleEndian (hasColor ix)
                            (zip (vertexPropertyOrder h) (vertexPropertyTypes h))
                            (bytesPerVertex (vertexPropertyTypes h)) 0 0
                            positions0 colors0 of
                       Inl e \<Rightarrow> Inl e
                     | Inr (ps, cs) \<Rightarrow>
                         Inr \<lparr>positions = ps, colors = cs, count = nat vc\<rparr>)
                  else Inl (UnsupportedFormat (the (format h))))))"

text \<open>
  \<open>headerLength\<close>, and with it the header and the data offset, are only evaluated
  where \<open>headerEndIndex\<close> is not \<open>None\<close>.
\<close>

definition parsePly :: "buffer \<Rightarrow> error + pointset" where
  "parsePly buffer =
     (if headerEndIndex buffer = None then Inl NoEndHeader
      else decode_points (ply_header buffer) buffer (dataStart buffer))"

text \<open>
  parsePly on an engine that may refuse allocations: \<open>grants k n\<close> says whether the
  engine grants the \<open>k\<close>-th allocation of the call (0 for the positions, 1 for the
  colours) when it asks for \<open>n\<close> entries. The body is that of \<open>decode_points\<close> with
  the two allocations decided by the engine; \<open>parsePly\<close> is the case of an engine that
  grants both.
\<close>

definition decode_points_on :: "(nat \<Rightarrow> int \<Rightarrow> bool) \<Rightarrow> header \<Rightarrow> buffer \<Rightarrow> nat \<Rightarrow> error + pointset" where
  "decode_points_on grants h buffer start =
     (if format_falsy (format h) then Inl FormatNotSpecified
      else if count_falsy (vertexCount h) then Inl VertexElementMissing
      else
        let bufferView = drop start buffer;
            isLittleEndian = (format h = Some ''binary_little_endian'');
            ix = property_indices (vertexPropertyOrder h);
            vc = the (vertexCount h)
        in if xIndex ix = None \<or> yIndex ix = None \<or> zIndex ix = None
           then Inl NoPositionProperties
           else
             (case newFloat32ArrayOn (grants 0) (vc * 3) of
                Inl e \<Rightarrow> Inl e
              | Inr positions0 \<Rightarrow>
             (case newFloat32ArrayOn (grants 1) (vc * 3) of
                Inl e \<Rightarrow> Inl e
              | Inr colors0 \<Rightarrow>
                  if format h = Some ''ascii''
                  then
                    (case ascii_loop (nat vc) (length (vertexPropertyOrder h)) ix
                            (split_lines (drop start buffer)) 0 positions0 colors0 of
                       (ps, cs) \<Rightarrow> Inr \<lparr>positions = ps, colors = cs, count = nat vc\<rparr>)
                  else if format h = Some ''binary_little_endian''
                          \<or> format h = Some ''binary_big_endian''
                  then
                    (case binary_loop (nat vc) bufferView isLittleEndian (hasColor ix)
                            (zip (vertexPropertyOrder h) (vertexPropertyTypes h))
                            (bytesPerVertex (vertexPropertyTypes h)) 0 0
                            positions0 colors0 of
                       Inl e \<Rightarrow> Inl e
                     | Inr (ps, cs) \<Rightarrow>
                         Inr \<lparr>positions = ps, colors = cs, count = nat vc\<rparr>)
                  else Inl (UnsupportedFormat (the (format h))))))"

definition parsePly_on :: "(nat \<Rightarrow> int \<Rightarrow> bool) \<Rightarrow> buffer \<Rightarrow> error + pointset" where
  "parsePly_on grants buffer =
     (if headerEndIndex buffer = None then Inl NoEndHeader
      else decode_points_on grants (ply_header buffer) buffer (dataStart buffer))"

section \<open>The loader\<close>

definition isPlyBuffer :: "buffer \<Rightarrow> bool" where
  "isPlyBuffer buffer \<longleftrightarrow> startsWith (take 1024 buffer) ''ply''"

text \<open>The two \<^verbatim>\<open>console.warn\<close> calls of the raw branch.\<close>

datatype warning =
    NotSixPerPoint nat    \<comment> \<open>\<^verbatim>\<open>Expected Float32 xyzrgb per point (6 floats), but got length = n\<close>\<close>
  | NoPoints              \<comment> \<open>\<^verbatim>\<open>No points detected in buffer.\<close>\<close>

text \<open>
  The result is the pair of the warnings printed and the value returned: \<open>None\<close> for
  null, otherwise the arrays handed to the geometry (the construction of the rendering
  object from them is outside the model).
\<close>

definition loadSimpleSplatFromArrayBuffer :: "buffer \<Rightarrow> error + warning list \<times> pointset option" where
  "loadSimpleSplatFromArrayBuffer buffer =
     (if isPlyBuffer buffer
      then (case parsePly buffer of
              Inl e \<Rightarrow> Inl e
            | Inr plyData \<Rightarrow> Inr ([], Some plyData))
      else
        (case float32_view buffer of
           Inl e \<Rightarrow> Inl e
         | Inr floats \<Rightarrow>
             let w1 = (if length floats mod 6 \<noteq> 0 then [NotSixPerPoint (length floats)] else []);
                 cnt = length floats div 6
             in if cnt = 0 then Inr (w1 @ [NoPoints], None)
                else
                  (case newFloat32Array (int cnt * 3) of
                     Inl e \<Rightarrow> Inl e
                   | Inr positions0 \<Rightarrow>
                  (case newFloat32Array (int cnt * 3) of
                     Inl e \<Rightarrow> Inl e
                   | Inr colors0 \<Rightarrow>
                       (case raw_loop cnt floats 0 positions0 colors0 of
                          (ps, cs) \<Rightarrow>
                            Inr (w1, Some \<lparr>positions = ps, colors = cs, count = cnt\<rparr>))))))"

section \<open>Notions used in the statements\<close>

text \<open>
  The \<open>m\<close>-th 32-bit float of a buffer: the float whose bits are bytes \<open>4m\<close> to
  \<open>4m + 3\<close>, read little-endian.
\<close>

definition float_at :: "buffer \<Rightarrow> nat \<Rightarrow> jsnum" where
  "float_at buffer m = F32 (of_int (le_int (take 4 (drop (4 * m) buffer))))"

subsection \<open>Example buffers\<close>

text \<open>Raw buffers of 5, 8 and 28 bytes.\<close>

definition raw_five :: buffer where
  "raw_five = [CHR 0x01, CHR 0x02, CHR 0x03, CHR 0x04, CHR 0x05]"

definition raw_eight :: buffer where
  "raw_eight = [CHR 0x00, CHR 0x00, CHR 0x80, CHR 0x3F, CHR 0x00, CHR 0x00, CHR 0x00, CHR 0x40]"

definition raw_seven_floats :: buffer where
  "raw_seven_floats =
     [CHR 0x00, CHR 0x00, CHR 0x80, CHR 0x3F,  CHR 0x00, CHR 0x00, CHR 0x00, CHR 0x40,
      CHR 0x00, CHR 0x00, CHR 0x40, CHR 0x40,  CHR 0x00, CHR 0x00, CHR 0x00, CHR 0x3F,
      CHR 0x00, CHR 0x00, CHR 0x80, CHR 0x3E,  CHR 0x00, CHR 0x00, CHR 0x00, CHR 0x3E,
      CHR 0x01, CHR 0x02, CHR 0x03, CHR 0x04]"

text \<open>A structured buffer without the terminator.\<close>

definition no_terminator :: buffer where
  "no_terminator = ''ply\<newline>format ascii 1.0\<newline>element vertex 1\<newline>property float x\<newline>1 2 3\<newline>''"

text \<open>
  The whitespace-separated tokens of a line (a blank line has none), the lines of a data
  section that have at least as many tokens as there are declared properties, and their
  number in a buffer.
\<close>

definition line_tokens :: "string \<Rightarrow> string list" where
  "line_tokens line = (if trim line = [] then [] else split_ws (trim line))"

definition usable_line :: "nat \<Rightarrow> string \<Rightarrow> bool" where
  "usable_line nprops line \<longleftrightarrow> nprops \<le> length (line_tokens line)"

definition usable_lines :: "buffer \<Rightarrow> nat" where
  "usable_lines buffer =
     length (filter (usable_line (length (vertexPropertyOrder (ply_header buffer))))
               (data_lines buffer))"

text \<open>
  The header conditions of the loader: a supported format token, the three position
  properties, and a vertex count for which the engine allocates both arrays.
\<close>

definition supported_format :: "string option \<Rightarrow> bool" where
  "supported_format f \<longleftrightarrow>
     f = Some ''ascii'' \<or> f = Some ''binary_little_endian'' \<or> f = Some ''binary_big_endian''"

definition has_xyz :: "string list \<Rightarrow> bool" where
  "has_xyz order \<longleftrightarrow> ''x'' \<in> set order \<and> ''y'' \<in> set order \<and> ''z'' \<in> set order"

definition allocated :: "(nat \<Rightarrow> int \<Rightarrow> bool) \<Rightarrow> int option \<Rightarrow> bool" where
  "allocated grants n =
     (case n of
        None \<Rightarrow> False
      | Some vc \<Rightarrow> 0 \<le> vc * 3 \<and> vc * 3 \<le> max_array_length
                   \<and> grants 0 (vc * 3) \<and> grants 1 (vc * 3))"

subsection \<open>Example structured buffers\<close>

text \<open>The header of the concrete scenario of the specification.\<close>

definition scenario_header :: string where
  "scenario_header =
     ''ply\<newline>format binary_little_endian 1.0\<newline>element vertex 2\<newline>property float x\<newline>property float y\<newline>property float z\<newline>property uchar red\<newline>property uchar green\<newline>property uchar blue\<newline>end_header\<newline>''"

text \<open>The scenario with 0x20 as first data byte: the first coordinate is the float with
  bits 0x3F800020.\<close>

definition scenario_space_first :: buffer where
  "scenario_space_first =
     scenario_header @
     [CHR 0x20, CHR 0x00, CHR 0x80, CHR 0x3F, CHR 0x00, CHR 0x00, CHR 0x00, CHR 0x40,
      CHR 0x00, CHR 0x00, CHR 0x40, CHR 0x40, CHR 0xFF, CHR 0x80, CHR 0x00, CHR 0x00,
      CHR 0x00, CHR 0x80, CHR 0xBF, CHR 0x00, CHR 0x00, CHR 0x00, CHR 0x3F, CHR 0x00,
      CHR 0x00, CHR 0x80, CHR 0x3E, CHR 0x0A, CHR 0x14, CHR 0x1E]"

text \<open>The same scenario with first coordinate 1.0 (bits 0x3F800000).\<close>

definition scenario_plain :: buffer where
  "scenario_plain =
     scenario_header @
     [CHR 0x00, CHR 0x00, CHR 0x80, CHR 0x3F, CHR 0x00, CHR 0x00, CHR 0x00, CHR 0x40,
      CHR 0x00, CHR 0x00, CHR 0x40, CHR 0x40, CHR 0xFF, CHR 0x80, CHR 0x00, CHR 0x00,
      CHR 0x00, CHR 0x80, CHR 0xBF, CHR 0x00, CHR 0x00, CHR 0x00, CHR 0x3F, CHR 0x00,
      CHR 0x00, CHR 0x80, CHR 0x3E, CHR 0x0A, CHR 0x14, CHR 0x1E]"

text \<open>One binary point whose properties hold \<open>red\<close> (255) and, declared later, \<open>r\<close> (7).\<close>

definition both_names_binary :: buffer where
  "both_names_binary =
     ''ply\<newline>format binary_little_endian 1.0\<newline>element vertex 1\<newline>property float x\<newline>property float y\<newline>property float z\<newline>property uchar red\<newline>property uchar green\<newline>property uchar blue\<newline>property uchar r\<newline>end_header\<newline>'' @
     [CHR 0x00, CHR 0x00, CHR 0x80, CHR 0x3F, CHR 0x00, CHR 0x00, CHR 0x00, CHR 0x40,
      CHR 0x00, CHR 0x00, CHR 0x40, CHR 0x40, CHR 0xFF, CHR 0x80, CHR 0x00, CHR 0x07]"

text \<open>The same point in text mode.\<close>

definition both_names_text :: buffer where
  "both_names_text =
     ''ply\<newline>format ascii 1.0\<newline>element vertex 1\<newline>property float x\<newline>property float y\<newline>property float z\<newline>property uchar red\<newline>property uchar green\<newline>property uchar blue\<newline>property uchar r\<newline>end_header\<newline>1 2 3 255 128 0 7\<newline>''"

text \<open>Two points declared, one data line, no colour property.\<close>

definition ascii_short :: buffer where
  "ascii_short =
     ''ply\<newline>format ascii 1.0\<newline>element vertex 2\<newline>property float x\<newline>property float y\<newline>property float z\<newline>end_header\<newline>1 2 3\<newline>''"

text \<open>One text point with the colour properties \<open>red\<close>, \<open>g\<close>, \<open>b\<close>.\<close>

definition mixed_names :: buffer where
  "mixed_names =
     ''ply\<newline>format ascii 1.0\<newline>element vertex 1\<newline>property float x\<newline>property float y\<newline>property float z\<newline>property uchar red\<newline>property uchar g\<newline>property uchar b\<newline>end_header\<newline>1 2 3 255 0 0\<newline>''"

text \<open>An unsupported format token together with the vertex count -1.\<close>

definition negative_count :: buffer where
  "negative_count =
     ''ply\<newline>format foo\<newline>element vertex -1\<newline>property float x\<newline>property float y\<newline>property float z\<newline>end_header\<newline>''"

text \<open>An unsupported format token with one vertex.\<close>

definition unsupported_foo :: buffer where
  "unsupported_foo =
     ''ply\<newline>format foo\<newline>element vertex 1\<newline>property float x\<newline>property float y\<newline>property float z\<newline>end_header\<newline>''"

text \<open>An unsupported format token with a vertex count of 10^12.\<close>

definition big_count :: buffer where
  "big_count =
     ''ply\<newline>format foo\<newline>element vertex 1000000000000\<newline>property float x\<newline>property float y\<newline>property float z\<newline>end_header\<newline>''"

text \<open>
  A text buffer in which \<open>end_header\<close> occurs only inside a comment line, followed
  by one data line.
\<close>

definition comment_terminator :: buffer where
  "comment_terminator =
     ''ply\<newline>format ascii 1.0\<newline>element vertex 1\<newline>property float x\<newline>property float y\<newline>property float z\<newline>comment end_header\<newline>1 2 3\<newline>''"

text \<open>The point set decoded from \<open>ascii_short\<close>.\<close>

definition ascii_short_points :: pointset where
  "ascii_short_points =
     \<lparr>positions = [Fround (ParsedFloat ''1''), Fround (ParsedFloat ''2''),
                   Fround (ParsedFloat ''3''), IntV 0, IntV 0, IntV 0],
      colors = [IntV 1, IntV 1, IntV 1, IntV 0, IntV 0, IntV 0],
      count = 2\<rparr>"

section \<open>Typed-array stores and the raw decoder\<close>

lemma length_store3 [simp]: "length (store3 arr v a b c) = length arr"
  by (simp add: store3_def)

lemma store3_nth:
  "3 * v + 2 < length arr \<Longrightarrow>
   store3 arr v a b c ! k =
     (if k = 3 * v then fround a else if k = 3 * v + 1 then fround b
      else if k = 3 * v + 2 then fround c else arr ! k)"
  by (auto simp: store3_def)

lemma length_float32_elems: "length (float32_elems bs) = length bs div 4"
  by (induction bs rule: float32_elems.induct) simp_all

lemma fround_float32_elems: "k < length (float32_elems bs) \<Longrightarrow> fround (float32_elems bs ! k) = float32_elems bs ! k"
proof (induction bs arbitrary: k rule: float32_elems.induct)
  case (1 a b c d rest)
  then show ?case by (cases k) simp_all
qed simp_all

lemma raw_loop_spec:
  "raw_loop n floats i pos col = (ps, cs) \<Longrightarrow> length pos = 3 * M \<Longrightarrow> length col = 3 * M \<Longrightarrow>
   i + n \<le> M \<Longrightarrow>
     length ps = 3 * M \<and> length cs = 3 * M \<and>
     (\<forall>m. i \<le> m \<and> m < i + n \<longrightarrow>
        ps ! (3 * m) = fround (floats ! (6 * m)) \<and>
        ps ! (3 * m + 1) = fround (floats ! (6 * m + 1)) \<and>
        ps ! (3 * m + 2) = fround (floats ! (6 * m + 2)) \<and>
        cs ! (3 * m) = fround (floats ! (6 * m + 3)) \<and>
        cs ! (3 * m + 1) = fround (floats ! (6 * m + 4)) \<and>
        cs ! (3 * m + 2) = fround (floats ! (6 * m + 5))) \<and>
     (\<forall>k. k < 3 * i \<longrightarrow> ps ! k = pos ! k \<and> cs ! k = col ! k)"
proof (induction n arbitrary: i pos col)
  case 0
  then show ?case by auto
next
  case (Suc n)
  let ?pos = "store3 pos i (floats ! (6 * i + 0)) (floats ! (6 * i + 1)) (floats ! (6 * i + 2))"
  let ?col = "store3 col i (floats ! (6 * i + 3)) (floats ! (6 * i + 4)) (floats ! (6 * i + 5))"
  from Suc.prems(1) have run: "raw_loop n floats (Suc i) ?pos ?col = (ps, cs)" by simp
  have lens: "length ?pos = 3 * M" "length ?col = 3 * M" using Suc.prems by simp_all
  have bound: "Suc i + n \<le> M" using Suc.prems by simp
  note IH = Suc.IH [OF run lens bound]
  have inr: "3 * i + 2 < length pos" "3 * i + 2 < length col" using Suc.prems by simp_all
  have keep: "\<And>k. k < 3 * Suc i \<Longrightarrow> ps ! k = ?pos ! k \<and> cs ! k = ?col ! k"
    using IH by blast
  have at_i: "ps ! (3 * i) = fround (floats ! (6 * i))"
      "ps ! (3 * i + 1) = fround (floats ! (6 * i + 1))"
      "ps ! (3 * i + 2) = fround (floats ! (6 * i + 2))"
      "cs ! (3 * i) = fround (floats ! (6 * i + 3))"
      "cs ! (3 * i + 1) = fround (floats ! (6 * i + 4))"
      "cs ! (3 * i + 2) = fround (floats ! (6 * i + 5))"
    using keep [of "3 * i"] keep [of "3 * i + 1"] keep [of "3 * i + 2"] inr
    by (simp_all add: store3_nth)
  have before: "\<And>k. k < 3 * i \<Longrightarrow> ps ! k = pos ! k \<and> cs ! k = col ! k"
    using keep inr by (simp add: store3_nth)
  have range: "\<And>m. i \<le> m \<Longrightarrow> m < i + Suc n \<Longrightarrow> m = i \<or> (Suc i \<le> m \<and> m < Suc i + n)"
    by arith
  show ?case
    using IH at_i before range by (metis (no_types, lifting))
qed


lemma float32_elems_nth:
  "m < length bs div 4 \<Longrightarrow> float32_elems bs ! m = float_at bs m"
proof (induction bs arbitrary: m rule: float32_elems.induct)
  case (1 a b c d rest)
  show ?case
  proof (cases m)
    case 0
    then show ?thesis by (simp add: float_at_def)
  next
    case (Suc m')
    have "drop (4 + 4 * m') (a # b # c # d # rest) = drop (4 * m') rest"
      using drop_drop [of "4 * m'" 4 "a # b # c # d # rest"] by (simp add: add.commute)
    with 1 Suc show ?thesis by (simp add: float_at_def)
  qed
qed simp_all

lemma raw_examples_not_ply:
  "\<not> isPlyBuffer raw_five" "\<not> isPlyBuffer raw_eight" "\<not> isPlyBuffer raw_seven_floats"
  by (simp_all add: isPlyBuffer_def startsWith_def raw_five_def raw_eight_def raw_seven_floats_def)

text \<open>
  C7: a raw buffer of \<open>6N + k\<close> floats (\<open>4(6N + k)\<close> bytes), \<open>N \<ge> 1\<close>, \<open>k < 6\<close>, decodes
  to exactly \<open>N\<close> points; point \<open>i\<close> has as position the floats \<open>6i, 6i+1, 6i+2\<close> and
  as colour the floats \<open>6i+3, 6i+4, 6i+5\<close> of the buffer, unchanged. The trailing \<open>k\<close>
  floats are dropped; the only effect of \<open>k \<noteq> 0\<close> is one warning. (The byte length of
  an ArrayBuffer never exceeds \<open>2 ^ 53 - 1\<close>.)
\<close>

theorem raw_decode_groups_of_six:
  assumes raw: "\<not> isPlyBuffer buffer"
    and len: "length buffer = 4 * (6 * N + k)"
    and N: "1 \<le> N" and k: "k < 6"
    and fits: "int (length buffer) \<le> max_array_length"
  shows "\<exists>ps. loadSimpleSplatFromArrayBuffer buffer =
            Inr (if k = 0 then [] else [NotSixPerPoint (6 * N + k)], Some ps)
          \<and> count ps = N \<and> length (positions ps) = 3 * N \<and> length (colors ps) = 3 * N
          \<and> (\<forall>i<N. positions ps ! (3 * i) = float_at buffer (6 * i)
                  \<and> positions ps ! (3 * i + 1) = float_at buffer (6 * i + 1)
                  \<and> positions ps ! (3 * i + 2) = float_at buffer (6 * i + 2)
                  \<and> colors ps ! (3 * i) = float_at buffer (6 * i + 3)
                  \<and> colors ps ! (3 * i + 1) = float_at buffer (6 * i + 4)
                  \<and> colors ps ! (3 * i + 2) = float_at buffer (6 * i + 5))"
proof -
  let ?floats = "float32_elems buffer"
  have nfl: "length ?floats = 6 * N + k"
    using len by (simp add: length_float32_elems)
  have cnt: "length ?floats div 6 = N" and rem: "length ?floats mod 6 = k"
    using nfl k by simp_all
  have alloc: "newFloat32Array (int N * 3) = Inr (replicate (3 * N) (IntV 0))"
    using fits len by (simp add: newFloat32Array_def max_array_length_def nat_mult_distrib mult.commute)
  obtain ps cs where run:
    "raw_loop N ?floats 0 (replicate (3 * N) (IntV 0)) (replicate (3 * N) (IntV 0)) = (ps, cs)"
    by (cases "raw_loop N ?floats 0 (replicate (3 * N) (IntV 0)) (replicate (3 * N) (IntV 0))")
  have spec: "length ps = 3 * N \<and> length cs = 3 * N \<and>
     (\<forall>m. 0 \<le> m \<and> m < 0 + N \<longrightarrow>
        ps ! (3 * m) = fround (?floats ! (6 * m)) \<and>
        ps ! (3 * m + 1) = fround (?floats ! (6 * m + 1)) \<and>
        ps ! (3 * m + 2) = fround (?floats ! (6 * m + 2)) \<and>
        cs ! (3 * m) = fround (?floats ! (6 * m + 3)) \<and>
        cs ! (3 * m + 1) = fround (?floats ! (6 * m + 4)) \<and>
        cs ! (3 * m + 2) = fround (?floats ! (6 * m + 5))) \<and>
     (\<forall>k. k < 3 * 0 \<longrightarrow> ps ! k = replicate (3 * N) (IntV 0) ! k \<and> cs ! k = replicate (3 * N) (IntV 0) ! k)"
    by (rule raw_loop_spec [OF run]) simp_all
  have val: "fround (?floats ! j) = float_at buffer j" if "j < 6 * N" for j
  proof -
    have "j < length ?floats" using that nfl by simp
    moreover have "j < length buffer div 4" using that len by simp
    ultimately show ?thesis
      by (simp add: float32_elems_nth float_at_def)
  qed
  have res: "loadSimpleSplatFromArrayBuffer buffer =
      Inr (if k = 0 then [] else [NotSixPerPoint (6 * N + k)],
           Some \<lparr>positions = ps, colors = cs, count = N\<rparr>)"
    using raw len N cnt rem nfl alloc run
    by (simp add: loadSimpleSplatFromArrayBuffer_def float32_view_def)
  have "positions \<lparr>positions = ps, colors = cs, count = N\<rparr> ! (3 * i) = float_at buffer (6 * i)
      \<and> positions \<lparr>positions = ps, colors = cs, count = N\<rparr> ! (3 * i + 1) = float_at buffer (6 * i + 1)
      \<and> positions \<lparr>positions = ps, colors = cs, count = N\<rparr> ! (3 * i + 2) = float_at buffer (6 * i + 2)
      \<and> colors \<lparr>positions = ps, colors = cs, count = N\<rparr> ! (3 * i) = float_at buffer (6 * i + 3)
      \<and> colors \<lparr>positions = ps, colors = cs, count = N\<rparr> ! (3 * i + 1) = float_at buffer (6 * i + 4)
      \<and> colors \<lparr>positions = ps, colors = cs, count = N\<rparr> ! (3 * i + 2) = float_at buffer (6 * i + 5)"
    if "i < N" for i
    using spec that val [of "6 * i"] val [of "6 * i + 1"] val [of "6 * i + 2"]
      val [of "6 * i + 3"] val [of "6 * i + 4"] val [of "6 * i + 5"]
    by simp
  with res spec show ?thesis
    by (intro exI [of _ "\<lparr>positions = ps, colors = cs, count = N\<rparr>"]) simp
qed

theorem raw_decode_groups_of_six_witness:
  "\<not> isPlyBuffer raw_seven_floats \<and> length raw_seven_floats = 4 * (6 * 1 + 1)
   \<and> (\<exists>ps. loadSimpleSplatFromArrayBuffer raw_seven_floats = Inr ([NotSixPerPoint 7], Some ps)
         \<and> count ps = 1 \<and> length (positions ps) = 3 \<and> length (colors ps) = 3
         \<and> positions ps ! 0 = float_at raw_seven_floats 0
         \<and> positions ps ! 1 = float_at raw_seven_floats 1
         \<and> positions ps ! 2 = float_at raw_seven_floats 2
         \<and> colors ps ! 0 = float_at raw_seven_floats 3
         \<and> colors ps ! 1 = float_at raw_seven_floats 4
         \<and> colors ps ! 2 = float_at raw_seven_floats 5)"
proof -
  have len: "length raw_seven_floats = 4 * (6 * 1 + 1)"
    by (simp add: raw_seven_floats_def)
  have fits: "int (length raw_seven_floats) \<le> max_array_length"
    by (simp add: raw_seven_floats_def max_array_length_def)
  from raw_decode_groups_of_six [OF raw_examples_not_ply(3) len _ _ fits]
  obtain ps where "loadSimpleSplatFromArrayBuffer raw_seven_floats =
            Inr (if (1::nat) = 0 then [] else [NotSixPerPoint (6 * 1 + 1)], Some ps)
          \<and> count ps = 1 \<and> length (positions ps) = 3 * 1 \<and> length (colors ps) = 3 * 1
          \<and> (\<forall>i<1. positions ps ! (3 * i) = float_at raw_seven_floats (6 * i)
                  \<and> positions ps ! (3 * i + 1) = float_at raw_seven_floats (6 * i + 1)
                  \<and> positions ps ! (3 * i + 2) = float_at raw_seven_floats (6 * i + 2)
                  \<and> colors ps ! (3 * i) = float_at raw_seven_floats (6 * i + 3)
                  \<and> colors ps ! (3 * i + 1) = float_at raw_seven_floats (6 * i + 4)
                  \<and> colors ps ! (3 * i + 2) = float_at raw_seven_floats (6 * i + 5))"
    by auto
  then have "loadSimpleSplatFromArrayBuffer raw_seven_floats = Inr ([NotSixPerPoint 7], Some ps)
         \<and> count ps = 1 \<and> length (positions ps) = 3 \<and> length (colors ps) = 3
         \<and> positions ps ! 0 = float_at raw_seven_floats 0
         \<and> positions ps ! 1 = float_at raw_seven_floats 1
         \<and> positions ps ! 2 = float_at raw_seven_floats 2
         \<and> colors ps ! 0 = float_at raw_seven_floats 3
         \<and> colors ps ! 1 = float_at raw_seven_floats 4
         \<and> colors ps ! 2 = float_at raw_seven_floats 5"
    by (simp add: numeral_2_eq_2)
  with raw_examples_not_ply(3) len show ?thesis by blast
qed

text \<open>
  C8: a raw buffer of fewer than six floats (\<open>4n\<close> bytes, \<open>n < 6\<close>) makes the loader
  return null, after its warnings, and raise nothing.
\<close>

theorem raw_empty_outcome:
  "\<not> isPlyBuffer buffer \<Longrightarrow> length buffer = 4 * n \<Longrightarrow> n < 6 \<Longrightarrow>
   loadSimpleSplatFromArrayBuffer buffer =
     Inr ((if n = 0 then [] else [NotSixPerPoint n]) @ [NoPoints], None)"
  by (simp add: loadSimpleSplatFromArrayBuffer_def float32_view_def length_float32_elems)

theorem raw_empty_outcome_witness:
  "\<not> isPlyBuffer raw_eight \<and> length raw_eight = 4 * 2
   \<and> loadSimpleSplatFromArrayBuffer raw_eight = Inr ([NotSixPerPoint 2, NoPoints], None)"
proof -
  have len: "length raw_eight = 4 * 2" by (simp add: raw_eight_def)
  from raw_empty_outcome [OF raw_examples_not_ply(2) len] raw_examples_not_ply(2) len
  show ?thesis by simp
qed

text \<open>
  C9: a raw buffer whose byte length is not a multiple of 4 makes the loader raise (the
  Float32Array view cannot be built), with no warning-and-decode outcome.
\<close>

theorem raw_unaligned_raises:
  "\<not> isPlyBuffer buffer \<Longrightarrow> length buffer mod 4 \<noteq> 0 \<Longrightarrow>
   loadSimpleSplatFromArrayBuffer buffer = Inl RangeError"
  by (simp add: loadSimpleSplatFromArrayBuffer_def float32_view_def)

theorem raw_unaligned_raises_witness:
  "\<not> isPlyBuffer raw_five \<and> length raw_five mod 4 \<noteq> 0
   \<and> loadSimpleSplatFromArrayBuffer raw_five = Inl RangeError"
proof -
  have len: "length raw_five mod 4 \<noteq> 0" by (simp add: raw_five_def)
  from raw_unaligned_raises [OF raw_examples_not_ply(1) len] raw_examples_not_ply(1) len
  show ?thesis by simp
qed

section \<open>Finding the header\<close>

lemma startsWith_iff: "startsWith s p \<longleftrightarrow> (\<exists>post. s = p @ post)"
proof
  assume "startsWith s p"
  then have "s = p @ drop (length p) s"
    unfolding startsWith_def by (metis append_take_drop_id)
  then show "\<exists>post. s = p @ post" ..
next
  assume "\<exists>post. s = p @ post"
  then show "startsWith s p" by (auto simp: startsWith_def)
qed

lemma indexOf_None_iff: "indexOf s p = None \<longleftrightarrow> \<not> (\<exists>pre post. s = pre @ p @ post)"
proof (induction s)
  case Nil
  show ?case by auto
next
  case (Cons c cs)
  show ?case
  proof (cases "startsWith (c # cs) p")
    case True
    then obtain post where "c # cs = [] @ p @ post" by (auto simp: startsWith_iff)
    then have "\<exists>pre post. c # cs = pre @ p @ post" by blast
    with True show ?thesis by simp
  next
    case False
    have "(\<exists>pre post. c # cs = pre @ p @ post) \<longleftrightarrow> (\<exists>pre post. cs = pre @ p @ post)"
    proof
      assume "\<exists>pre post. c # cs = pre @ p @ post"
      then obtain pre post where eq: "c # cs = pre @ p @ post" by blast
      show "\<exists>pre post. cs = pre @ p @ post"
      proof (cases pre)
        case Nil
        with eq False show ?thesis by (simp add: startsWith_iff)
      next
        case (Cons a pre')
        with eq have "cs = pre' @ p @ post" by simp
        then show ?thesis by blast
      qed
    next
      assume "\<exists>pre post. cs = pre @ p @ post"
      then obtain pre post where "cs = pre @ p @ post" by blast
      then have "c # cs = (c # pre) @ p @ post" by simp
      then show "\<exists>pre post. c # cs = pre @ p @ post" by blast
    qed
    with False Cons.IH show ?thesis by simp
  qed
qed

lemma indexOf_Some_bound: "indexOf s p = Some i \<Longrightarrow> i + length p \<le> length s"
proof (induction s arbitrary: i)
  case Nil
  then show ?case by (simp split: if_splits)
next
  case (Cons c cs)
  show ?case
  proof (cases "startsWith (c # cs) p")
    case True
    then obtain post where "c # cs = p @ post" by (auto simp: startsWith_iff)
    then have "length p \<le> length (c # cs)" by (metis length_append le_add1)
    with True Cons.prems show ?thesis by simp
  next
    case False
    with Cons.prems obtain j where "indexOf cs p = Some j" "i = Suc j" by auto
    with Cons.IH show ?thesis by simp
  qed
qed

text \<open>
  C3, amended: when the literal \<open>end_header\<close> does not occur anywhere in the first
  64 KiB of a structured buffer (decoded as text), on a line of its own or not, decoding
  fails with the missing-terminator error and returns no point set.
\<close>

theorem missing_end_header_fails:
  assumes "isPlyBuffer buffer"
    and "\<not> (\<exists>pre post. take 65536 buffer = pre @ ''end_header'' @ post)"
  shows "parsePly buffer = Inl NoEndHeader
         \<and> loadSimpleSplatFromArrayBuffer buffer = Inl NoEndHeader"
proof -
  have "headerEndIndex buffer = None"
    using assms(2) by (simp add: headerEndIndex_def textHeader_def indexOf_None_iff)
  then have "parsePly buffer = Inl NoEndHeader" by (simp add: parsePly_def)
  with assms(1) show ?thesis by (simp add: loadSimpleSplatFromArrayBuffer_def)
qed

theorem missing_end_header_fails_witness:
  "isPlyBuffer no_terminator
   \<and> \<not> (\<exists>pre post. take 65536 no_terminator = pre @ ''end_header'' @ post)
   \<and> parsePly no_terminator = Inl NoEndHeader
   \<and> loadSimpleSplatFromArrayBuffer no_terminator = Inl NoEndHeader"
proof -
  have ply: "isPlyBuffer no_terminator" by code_simp
  have "indexOf (take 65536 no_terminator) ''end_header'' = None" by code_simp
  then have absent: "\<not> (\<exists>pre post. take 65536 no_terminator = pre @ ''end_header'' @ post)"
    using indexOf_None_iff [of "take 65536 no_terminator" "''end_header''"] by blast
  from missing_end_header_fails [OF ply absent] ply absent show ?thesis by blast
qed

section \<open>The decoding loops\<close>

lemma store3_nth_other:
  "k < 3 * v \<or> 3 * v + 3 \<le> k \<Longrightarrow> store3 arr v a b c ! k = arr ! k"
  by (auto simp: store3_def)

lemma array_indexOf_None_iff: "array_indexOf xs v = None \<longleftrightarrow> v \<notin> set xs"
  by (induction xs) auto

lemma hasColor_iff:
  "hasColor (property_indices order) \<longleftrightarrow>
     (''red'' \<in> set order \<or> ''r'' \<in> set order) \<and>
     (''green'' \<in> set order \<or> ''g'' \<in> set order) \<and>
     (''blue'' \<in> set order \<or> ''b'' \<in> set order)"
  by (auto simp: hasColor_def property_indices_def colour_index_def array_indexOf_None_iff
      simp del: not_None_eq)

subsection \<open>The text loop\<close>



lemma ascii_loop_length:
  "ascii_loop vcount nprops ix lines v pos col = (ps, cs) \<Longrightarrow>
   length ps = length pos \<and> length cs = length col"
proof (induction lines arbitrary: v pos col)
  case Nil
  then show ?case by simp
next
  case (Cons line lines)
  then show ?case
    by (auto simp: Let_def split: if_splits)
qed

lemma ascii_loop_skip:
  "0 < nprops \<Longrightarrow> \<not> usable_line nprops line \<Longrightarrow>
   ascii_loop vcount nprops ix (line # lines) v pos col = ascii_loop vcount nprops ix lines v pos col"
  by (auto simp: usable_line_def line_tokens_def Let_def)

lemma ascii_loop_break:
  "0 < nprops \<Longrightarrow> usable_line nprops line \<Longrightarrow> vcount \<le> v \<Longrightarrow>
   ascii_loop vcount nprops ix (line # lines) v pos col = (pos, col)"
  by (auto simp: usable_line_def line_tokens_def Let_def split: if_splits)

lemma ascii_loop_store:
  "0 < nprops \<Longrightarrow> usable_line nprops line \<Longrightarrow> v < vcount \<Longrightarrow>
   ascii_loop vcount nprops ix (line # lines) v pos col =
     ascii_loop vcount nprops ix lines (Suc v)
       (store3 pos v (parseFloat (token_at (line_tokens line) (xIndex ix)))
          (parseFloat (token_at (line_tokens line) (yIndex ix)))
          (parseFloat (token_at (line_tokens line) (zIndex ix))))
       (if hasColor ix
        then store3 col v (Div255 (parseFloat (token_at (line_tokens line) (rIndex ix))))
               (Div255 (parseFloat (token_at (line_tokens line) (gIndex ix))))
               (Div255 (parseFloat (token_at (line_tokens line) (bIndex ix))))
        else store3 col v (IntV 1) (IntV 1) (IntV 1))"
  by (auto simp: usable_line_def line_tokens_def Let_def split: if_splits)

lemma ascii_loop_untouched:
  "ascii_loop vcount nprops ix lines v pos col = (ps, cs) \<Longrightarrow> 0 < nprops \<Longrightarrow>
   3 * (v + length (filter (usable_line nprops) lines)) \<le> i \<Longrightarrow>
   ps ! i = pos ! i \<and> cs ! i = col ! i"
proof (induction lines arbitrary: v pos col)
  case Nil
  then show ?case by simp
next
  case (Cons line lines)
  show ?case
  proof (cases "usable_line nprops line")
    case False
    from Cons.prems(1) have "ascii_loop vcount nprops ix lines v pos col = (ps, cs)"
      unfolding ascii_loop_skip [OF Cons.prems(2) False] .
    moreover from False Cons.prems have "3 * (v + length (filter (usable_line nprops) lines)) \<le> i"
      by simp
    ultimately show ?thesis using Cons.IH Cons.prems(2) by blast
  next
    case True
    show ?thesis
    proof (cases "vcount \<le> v")
      case True
      from Cons.prems(1) have "(pos, col) = (ps, cs)"
        unfolding ascii_loop_break [OF Cons.prems(2) \<open>usable_line nprops line\<close> True] .
      then show ?thesis by simp
    next
      case False
      then have lt: "v < vcount" by simp
      from True Cons.prems have far: "3 * (Suc v + length (filter (usable_line nprops) lines)) \<le> i"
        by simp
      then have i: "3 * v + 3 \<le> i" by simp
      from Cons.prems(1) have
        "ps ! i = store3 pos v (parseFloat (token_at (line_tokens line) (xIndex ix)))
          (parseFloat (token_at (line_tokens line) (yIndex ix)))
          (parseFloat (token_at (line_tokens line) (zIndex ix))) ! i
         \<and> cs ! i = (if hasColor ix
        then store3 col v (Div255 (parseFloat (token_at (line_tokens line) (rIndex ix))))
               (Div255 (parseFloat (token_at (line_tokens line) (gIndex ix))))
               (Div255 (parseFloat (token_at (line_tokens line) (bIndex ix))))
        else store3 col v (IntV 1) (IntV 1) (IntV 1)) ! i"
        unfolding ascii_loop_store [OF Cons.prems(2) True lt]
        by (rule Cons.IH [OF _ Cons.prems(2) far])
      with i show ?thesis by (simp add: store3_nth_other)
    qed
  qed
qed

lemma ascii_loop_white:
  "ascii_loop vcount nprops ix lines v pos col = (ps, cs) \<Longrightarrow> \<not> hasColor ix \<Longrightarrow>
   0 < nprops \<Longrightarrow> length col = 3 * vcount \<Longrightarrow> v \<le> vcount \<Longrightarrow>
   cs ! i = (if 3 * v \<le> i \<and> i < 3 * min vcount (v + length (filter (usable_line nprops) lines))
             then IntV 1 else col ! i)"
proof (induction lines arbitrary: v pos col)
  case Nil
  then show ?case by auto
next
  case (Cons line lines)
  show ?case
  proof (cases "usable_line nprops line")
    case False
    from Cons.prems(1) have "ascii_loop vcount nprops ix lines v pos col = (ps, cs)"
      unfolding ascii_loop_skip [OF Cons.prems(3) False] .
    from Cons.IH [OF this Cons.prems(2-5)] False show ?thesis by simp
  next
    case True
    show ?thesis
    proof (cases "vcount \<le> v")
      case True
      from Cons.prems(1) have "(pos, col) = (ps, cs)"
        unfolding ascii_loop_break [OF Cons.prems(3) \<open>usable_line nprops line\<close> True] .
      with True Cons.prems(5) show ?thesis by auto
    next
      case False
      then have lt: "v < vcount" by simp
      let ?col = "store3 col v (IntV 1) (IntV 1) (IntV 1)"
      have len: "length ?col = 3 * vcount" using Cons.prems by simp
      have inr: "3 * v + 2 < length col" using lt Cons.prems by simp
      from Cons.prems(1,2) have
        "cs ! i = (if 3 * Suc v \<le> i \<and> i < 3 * min vcount (Suc v + length (filter (usable_line nprops) lines))
             then IntV 1 else ?col ! i)"
        unfolding ascii_loop_store [OF Cons.prems(3) True lt]
        using Cons.IH [OF _ Cons.prems(2,3) len] lt by simp
      moreover have "3 * v + 3 \<le> 3 * min vcount (Suc v + length (filter (usable_line nprops) lines))"
        using lt by (simp add: min_def)
      ultimately show ?thesis
        using True lt inr by (auto simp: store3_nth)
    qed
  qed
qed

subsection \<open>The binary loop\<close>

lemma view_bytes_error: "view_bytes view offset n le = Inl e \<Longrightarrow> e = RangeError"
  by (simp add: view_bytes_def Let_def split: if_splits)

lemma get_errors:
  "getFloat32 view offset le = Inl e \<Longrightarrow> e = RangeError"
  "getFloat64 view offset le = Inl e \<Longrightarrow> e = RangeError"
  "getUint n view offset le = Inl e \<Longrightarrow> e = RangeError"
  "getInt n view offset le = Inl e \<Longrightarrow> e = RangeError"
  by (simp_all add: getFloat32_def getFloat64_def getUint_def getInt_def view_bytes_def Let_def
        split: if_splits)

lemma readProperty_error: "readProperty view t offset le = Inl e \<Longrightarrow> e = RangeError"
  unfolding readProperty_def
  by (simp split: if_splits; erule get_errors)

lemma read_vertex_error:
  "read_vertex view le hc props offset a = Inl e \<Longrightarrow> e = RangeError"
proof (induction props arbitrary: offset a)
  case Nil
  then show ?case by simp
next
  case (Cons p props)
  obtain name type where p: "p = (name, type)" by (cases p)
  from Cons.prems show ?case
    unfolding p by (auto split: sum.splits dest: readProperty_error Cons.IH)
qed

lemma binary_loop_error:
  "binary_loop n view le hc props stride v offset pos col = Inl e \<Longrightarrow> e = RangeError"
proof (induction n arbitrary: v offset pos col)
  case 0
  then show ?case by simp
next
  case (Suc n)
  then show ?case
    by (auto split: sum.splits dest: read_vertex_error)
qed

lemma assign_property_no_colour:
  "vr (assign_property False name val a) = vr a \<and>
   vg (assign_property False name val a) = vg a \<and>
   vb (assign_property False name val a) = vb a"
  by (simp add: assign_property_def Let_def)

lemma read_vertex_no_colour:
  "read_vertex view le False props offset a = Inr a' \<Longrightarrow>
   vr a' = vr a \<and> vg a' = vg a \<and> vb a' = vb a"
proof (induction props arbitrary: offset a)
  case Nil
  then show ?case by simp
next
  case (Cons p props)
  obtain name type where p: "p = (name, type)" by (cases p)
  from Cons.prems obtain val where
    rd: "readProperty view type offset le = Inr val"
    unfolding p by (cases "readProperty view type offset le") simp_all
  with Cons.prems have
    rest: "read_vertex view le False props (offset + propertySize type)
             (assign_property False name val a) = Inr a'"
    unfolding p by simp
  from Cons.IH [OF rest] show ?case
    by (simp add: assign_property_no_colour)
qed

lemma binary_loop_length:
  "binary_loop n view le hc props stride v offset pos col = Inr (ps, cs) \<Longrightarrow>
   length ps = length pos \<and> length cs = length col"
proof (induction n arbitrary: v offset pos col)
  case 0
  then show ?case by simp
next
  case (Suc n)
  show ?case
  proof (cases "read_vertex view le hc props offset vertex_init")
    case (Inl e)
    with Suc.prems show ?thesis by simp
  next
    case (Inr a)
    with Suc.prems have
      "binary_loop n view le hc props stride (Suc v) (offset + stride)
         (store3 pos v (vx a) (vy a) (vz a)) (store3 col v (vr a) (vg a) (vb a)) = Inr (ps, cs)"
      by simp
    from Suc.IH [OF this] show ?thesis by simp
  qed
qed

lemma binary_loop_white:
  "binary_loop n view le False props stride v offset pos col = Inr (ps, cs) \<Longrightarrow>
   length col = 3 * M \<Longrightarrow> v + n \<le> M \<Longrightarrow>
   cs ! i = (if 3 * v \<le> i \<and> i < 3 * (v + n) then IntV 1 else col ! i)"
proof (induction n arbitrary: v offset pos col)
  case 0
  then show ?case by auto
next
  case (Suc n)
  from Suc.prems(1) obtain a where
    rd: "read_vertex view le False props offset vertex_init = Inr a"
    by (cases "read_vertex view le False props offset vertex_init") simp_all
  with Suc.prems(1) have
    run: "binary_loop n view le False props stride (Suc v) (offset + stride)
       (store3 pos v (vx a) (vy a) (vz a)) (store3 col v (vr a) (vg a) (vb a)) = Inr (ps, cs)"
    by simp
  from read_vertex_no_colour [OF rd] have white: "vr a = IntV 1" "vg a = IntV 1" "vb a = IntV 1"
    by (simp_all add: vertex_init_def)
  let ?col = "store3 col v (IntV 1) (IntV 1) (IntV 1)"
  have len: "length ?col = 3 * M" using Suc.prems by simp
  have inr: "3 * v + 2 < length col" using Suc.prems by simp
  from run white have
    "cs ! i = (if 3 * Suc v \<le> i \<and> i < 3 * (Suc v + n) then IntV 1 else ?col ! i)"
    using Suc.IH [OF _ len] Suc.prems(3) by simp
  with inr show ?case
    by (auto simp: store3_nth)
qed

subsection \<open>The body of parsePly\<close>

lemma newFloat32Array_Inr:
  "newFloat32Array n = Inr arr \<Longrightarrow> 0 \<le> n \<and> n \<le> max_array_length \<and> arr = replicate (nat n) (IntV 0)"
  by (simp add: newFloat32Array_def split: if_splits)

lemma newFloat32Array_Inl:
  "newFloat32Array n = Inl e \<Longrightarrow> e = RangeError \<and> (n < 0 \<or> max_array_length < n)"
  by (simp add: newFloat32Array_def split: if_splits)

lemma decode_points_Inr:
  assumes ok: "decode_points h buffer start = Inr ps"
  shows "\<exists>vc. vertexCount h = Some vc \<and> 0 < vc \<and> vc * 3 \<le> max_array_length
           \<and> count ps = nat vc
           \<and> ''x'' \<in> set (vertexPropertyOrder h) \<and> ''y'' \<in> set (vertexPropertyOrder h)
           \<and> ''z'' \<in> set (vertexPropertyOrder h)
           \<and> ((format h = Some ''ascii''
                \<and> ascii_loop (nat vc) (length (vertexPropertyOrder h))
                      (property_indices (vertexPropertyOrder h))
                      (split_lines (drop start buffer)) 0
                      (replicate (nat (vc * 3)) (IntV 0)) (replicate (nat (vc * 3)) (IntV 0))
                    = (positions ps, colors ps))
              \<or> ((format h = Some ''binary_little_endian'' \<or> format h = Some ''binary_big_endian'')
                  \<and> binary_loop (nat vc) (drop start buffer)
                       (format h = Some ''binary_little_endian'')
                       (hasColor (property_indices (vertexPropertyOrder h)))
                       (zip (vertexPropertyOrder h) (vertexPropertyTypes h))
                       (bytesPerVertex (vertexPropertyTypes h)) 0 0
                       (replicate (nat (vc * 3)) (IntV 0)) (replicate (nat (vc * 3)) (IntV 0))
                     = Inr (positions ps, colors ps)))"
proof -
  let ?ix = "property_indices (vertexPropertyOrder h)"
  from ok have nf: "\<not> format_falsy (format h)" and nc: "\<not> count_falsy (vertexCount h)"
    by (auto simp: decode_points_def split: if_splits)
  from nc obtain vc where vc: "vertexCount h = Some vc" "vc \<noteq> 0"
    by (auto simp: count_falsy_def)
  from ok nf nc have xyz: "xIndex ?ix \<noteq> None" "yIndex ?ix \<noteq> None" "zIndex ?ix \<noteq> None"
    by (auto simp: decode_points_def Let_def split: if_splits)
  then have names: "''x'' \<in> set (vertexPropertyOrder h)" "''y'' \<in> set (vertexPropertyOrder h)"
      "''z'' \<in> set (vertexPropertyOrder h)"
    by (simp_all add: property_indices_def array_indexOf_None_iff del: not_None_eq)
  from ok nf nc xyz vc obtain arr where alloc: "newFloat32Array (vc * 3) = Inr arr"
    by (cases "newFloat32Array (vc * 3)") (auto simp: decode_points_def Let_def)
  from newFloat32Array_Inr [OF alloc] have rng: "0 \<le> vc * 3" "vc * 3 \<le> max_array_length"
    and arr: "arr = replicate (nat (vc * 3)) (IntV 0)" by simp_all
  from rng vc have pos: "0 < vc" by simp
  from ok nf nc xyz vc alloc have body:
    "(if format h = Some ''ascii''
      then (case ascii_loop (nat vc) (length (vertexPropertyOrder h)) ?ix
                   (split_lines (drop start buffer)) 0 arr arr of
              (ps, cs) \<Rightarrow> Inr \<lparr>positions = ps, colors = cs, count = nat vc\<rparr>)
      else if format h = Some ''binary_little_endian'' \<or> format h = Some ''binary_big_endian''
      then (case binary_loop (nat vc) (drop start buffer) (format h = Some ''binary_little_endian'')
                   (hasColor ?ix) (zip (vertexPropertyOrder h) (vertexPropertyTypes h))
                   (bytesPerVertex (vertexPropertyTypes h)) 0 0 arr arr of
              Inl e \<Rightarrow> Inl e
            | Inr (ps, cs) \<Rightarrow> Inr \<lparr>positions = ps, colors = cs, count = nat vc\<rparr>)
      else Inl (UnsupportedFormat (the (format h)))) = Inr ps"
    by (simp add: decode_points_def Let_def del: not_None_eq)
  have "count ps = nat vc \<and>
     ((format h = Some ''ascii''
        \<and> ascii_loop (nat vc) (length (vertexPropertyOrder h)) ?ix
              (split_lines (drop start buffer)) 0 arr arr = (positions ps, colors ps))
      \<or> ((format h = Some ''binary_little_endian'' \<or> format h = Some ''binary_big_endian'')
          \<and> binary_loop (nat vc) (drop start buffer) (format h = Some ''binary_little_endian'')
               (hasColor ?ix) (zip (vertexPropertyOrder h) (vertexPropertyTypes h))
               (bytesPerVertex (vertexPropertyTypes h)) 0 0 arr arr
             = Inr (positions ps, colors ps)))"
  proof (cases "format h = Some ''ascii''")
    case True
    obtain p c where run: "ascii_loop (nat vc) (length (vertexPropertyOrder h)) ?ix
                   (split_lines (drop start buffer)) 0 arr arr = (p, c)"
      by (cases "ascii_loop (nat vc) (length (vertexPropertyOrder h)) ?ix
                   (split_lines (drop start buffer)) 0 arr arr")
    with body True have "ps = \<lparr>positions = p, colors = c, count = nat vc\<rparr>" by simp
    with run True show ?thesis by simp
  next
    case False
    with body have bin: "format h = Some ''binary_little_endian'' \<or> format h = Some ''binary_big_endian''"
      by (simp split: if_splits)
    let ?run = "binary_loop (nat vc) (drop start buffer) (format h = Some ''binary_little_endian'')
                   (hasColor ?ix) (zip (vertexPropertyOrder h) (vertexPropertyTypes h))
                   (bytesPerVertex (vertexPropertyTypes h)) 0 0 arr arr"
    from body False bin have res: "(case ?run of Inl e \<Rightarrow> Inl e
            | Inr (ps, cs) \<Rightarrow> Inr \<lparr>positions = ps, colors = cs, count = nat vc\<rparr>) = Inr ps"
      by (simp only: if_False if_True)
    then obtain p c where run: "?run = Inr (p, c)"
      by (cases ?run) auto
    with res have "ps = \<lparr>positions = p, colors = c, count = nat vc\<rparr>" by simp
    with run bin show ?thesis by simp
  qed
  with vc pos rng names arr show ?thesis by blast
qed

section \<open>The header checks\<close>

lemma xyz_indices_iff:
  "xIndex (property_indices order) = None \<or> yIndex (property_indices order) = None
     \<or> zIndex (property_indices order) = None \<longleftrightarrow> \<not> has_xyz order"
  by (auto simp: property_indices_def has_xyz_def array_indexOf_None_iff simp del: not_None_eq)

text \<open>An engine that grants both allocations gives \<open>parsePly\<close>.\<close>

lemma newFloat32ArrayOn_granted: "newFloat32ArrayOn (\<lambda>n. True) n = newFloat32Array n"
  by (simp add: newFloat32ArrayOn_def newFloat32Array_def)

lemma decode_points_on_granted:
  "decode_points_on (\<lambda>k n. True) h buffer start = decode_points h buffer start"
  unfolding decode_points_on_def decode_points_def newFloat32ArrayOn_granted ..

lemma parsePly_on_granted: "parsePly_on (\<lambda>k n. True) buffer = parsePly buffer"
  by (simp add: parsePly_on_def parsePly_def decode_points_on_granted)

lemma allocated_iff:
  "allocated grants (Some vc) \<longleftrightarrow>
     (\<exists>arr. newFloat32ArrayOn (grants 0) (vc * 3) = Inr arr)
     \<and> (\<exists>arr. newFloat32ArrayOn (grants 1) (vc * 3) = Inr arr)"
  by (auto simp: allocated_def newFloat32ArrayOn_def)

lemma newFloat32ArrayOn_cases:
  "newFloat32ArrayOn granted n = Inl RangeError
   \<or> newFloat32ArrayOn granted n = Inr (replicate (nat n) (IntV 0))"
  by (simp add: newFloat32ArrayOn_def)

lemma decode_points_on_header_errors:
  "format_falsy (format h) \<Longrightarrow> decode_points_on grants h buffer start = Inl FormatNotSpecified"
  "\<not> format_falsy (format h) \<Longrightarrow> count_falsy (vertexCount h) \<Longrightarrow>
     decode_points_on grants h buffer start = Inl VertexElementMissing"
  "\<not> format_falsy (format h) \<Longrightarrow> \<not> count_falsy (vertexCount h) \<Longrightarrow>
     \<not> has_xyz (vertexPropertyOrder h) \<Longrightarrow>
     decode_points_on grants h buffer start = Inl NoPositionProperties"
  using xyz_indices_iff [of "vertexPropertyOrder h"]
  by (simp_all add: decode_points_on_def Let_def del: not_None_eq)

lemma decode_points_on_alloc_error:
  assumes "\<not> format_falsy (format h)" "\<not> count_falsy (vertexCount h)"
    "has_xyz (vertexPropertyOrder h)" "\<not> allocated grants (vertexCount h)"
  shows "decode_points_on grants h buffer start = Inl RangeError"
proof -
  from assms(2) obtain vc where vc: "vertexCount h = Some vc" by (auto simp: count_falsy_def)
  with assms(4) have refused: "newFloat32ArrayOn (grants 0) (vc * 3) = Inl RangeError
      \<or> newFloat32ArrayOn (grants 1) (vc * 3) = Inl RangeError"
    using newFloat32ArrayOn_cases [of "grants 0" "vc * 3"]
      newFloat32ArrayOn_cases [of "grants 1" "vc * 3"]
    by (auto simp: allocated_iff)
  have "(case newFloat32ArrayOn (grants 0) (vc * 3) of
           Inl e \<Rightarrow> Inl e
         | Inr positions0 \<Rightarrow>
             (case newFloat32ArrayOn (grants 1) (vc * 3) of
                Inl e \<Rightarrow> Inl e
              | Inr colors0 \<Rightarrow> rest positions0 colors0)) = Inl RangeError" for rest :: "jsnum list \<Rightarrow> jsnum list \<Rightarrow> error + pointset"
    using refused newFloat32ArrayOn_cases [of "grants 0" "vc * 3"]
    by (auto split: sum.splits)
  with assms(1-3) vc xyz_indices_iff [of "vertexPropertyOrder h"] show ?thesis
    by (simp add: decode_points_on_def Let_def del: not_None_eq)
qed

lemma decode_points_on_unsupported:
  assumes "\<not> format_falsy (format h)" "\<not> count_falsy (vertexCount h)"
    "has_xyz (vertexPropertyOrder h)" "allocated grants (vertexCount h)"
    "\<not> supported_format (format h)"
  shows "decode_points_on grants h buffer start = Inl (UnsupportedFormat (the (format h)))"
proof -
  from assms(4) obtain vc where vc: "vertexCount h = Some vc"
    and "allocated grants (Some vc)"
    by (auto simp: allocated_def split: option.splits)
  then have "newFloat32ArrayOn (grants 0) (vc * 3) = Inr (replicate (nat (vc * 3)) (IntV 0))"
      "newFloat32ArrayOn (grants 1) (vc * 3) = Inr (replicate (nat (vc * 3)) (IntV 0))"
    by (simp_all add: newFloat32ArrayOn_def allocated_def)
  with assms(1-3,5) vc xyz_indices_iff [of "vertexPropertyOrder h"] show ?thesis
    by (simp add: decode_points_on_def Let_def supported_format_def del: not_None_eq)
qed

lemma decode_points_on_supported:
  assumes "\<not> format_falsy (format h)" "\<not> count_falsy (vertexCount h)"
    "has_xyz (vertexPropertyOrder h)" "allocated grants (vertexCount h)"
    "supported_format (format h)" "decode_points_on grants h buffer start = Inl e"
  shows "e = RangeError"
proof -
  from assms(4) obtain vc where vc: "vertexCount h = Some vc"
    and "allocated grants (Some vc)"
    by (auto simp: allocated_def split: option.splits)
  then have alloc: "newFloat32ArrayOn (grants 0) (vc * 3) = Inr (replicate (nat (vc * 3)) (IntV 0))"
      "newFloat32ArrayOn (grants 1) (vc * 3) = Inr (replicate (nat (vc * 3)) (IntV 0))"
    by (simp_all add: newFloat32ArrayOn_def allocated_def)
  let ?arr = "replicate (nat (vc * 3)) (IntV 0)"
  let ?ix = "property_indices (vertexPropertyOrder h)"
  show ?thesis
  proof (cases "format h = Some ''ascii''")
    case True
    with assms(1-3,6) vc alloc xyz_indices_iff [of "vertexPropertyOrder h"] show ?thesis
      by (simp add: decode_points_on_def Let_def split: prod.splits del: not_None_eq)
  next
    case False
    with assms(5) have bin: "format h = Some ''binary_little_endian'' \<or> format h = Some ''binary_big_endian''"
      by (simp add: supported_format_def)
    let ?run = "binary_loop (nat vc) (drop start buffer) (format h = Some ''binary_little_endian'')
                   (hasColor ?ix) (zip (vertexPropertyOrder h) (vertexPropertyTypes h))
                   (bytesPerVertex (vertexPropertyTypes h)) 0 0 ?arr ?arr"
    from assms(1-3,6) vc alloc False bin xyz_indices_iff [of "vertexPropertyOrder h"]
    have "(case ?run of Inl e \<Rightarrow> Inl e
            | Inr (ps, cs) \<Rightarrow> Inr \<lparr>positions = ps, colors = cs, count = nat vc\<rparr>) = Inl e"
      by (simp add: decode_points_on_def Let_def del: not_None_eq)
    then have "?run = Inl e" by (cases ?run) auto
    then show ?thesis by (rule binary_loop_error)
  qed
qed

lemma parsePly_on_found:
  "headerEndIndex buffer \<noteq> None \<Longrightarrow>
   parsePly_on grants buffer = decode_points_on grants (ply_header buffer) buffer (dataStart buffer)"
  by (simp add: parsePly_on_def del: not_None_eq)

lemma parsePly_Inr:
  "parsePly buffer = Inr ps \<Longrightarrow>
   decode_points (ply_header buffer) buffer (dataStart buffer) = Inr ps"
  by (simp add: parsePly_def split: if_splits)

lemma parsePly_Inr_cases:
  assumes ok: "parsePly buffer = Inr ps" and cnt: "vertexCount (ply_header buffer) = Some (int N)"
  shows "count ps = N \<and> 0 < N \<and> 0 < length (vertexPropertyOrder (ply_header buffer))
         \<and> ((format (ply_header buffer) = Some ''ascii''
                \<and> ascii_loop N (length (vertexPropertyOrder (ply_header buffer)))
                      (property_indices (vertexPropertyOrder (ply_header buffer)))
                      (data_lines buffer) 0
                      (replicate (3 * N) (IntV 0)) (replicate (3 * N) (IntV 0))
                    = (positions ps, colors ps))
              \<or> (format (ply_header buffer) \<noteq> Some ''ascii''
                  \<and> binary_loop N (drop (dataStart buffer) buffer)
                       (format (ply_header buffer) = Some ''binary_little_endian'')
                       (hasColor (property_indices (vertexPropertyOrder (ply_header buffer))))
                       (zip (vertexPropertyOrder (ply_header buffer))
                            (vertexPropertyTypes (ply_header buffer)))
                       (bytesPerVertex (vertexPropertyTypes (ply_header buffer))) 0 0
                       (replicate (3 * N) (IntV 0)) (replicate (3 * N) (IntV 0))
                     = Inr (positions ps, colors ps)))"
proof -
  have arr: "nat (int N * 3) = 3 * N" by (simp add: nat_mult_distrib mult.commute)
  from decode_points_Inr [OF parsePly_Inr [OF ok]] cnt
  have *: "0 < int N \<and> count ps = nat (int N)
           \<and> ''x'' \<in> set (vertexPropertyOrder (ply_header buffer))
           \<and> ((format (ply_header buffer) = Some ''ascii''
                \<and> ascii_loop (nat (int N)) (length (vertexPropertyOrder (ply_header buffer)))
                      (property_indices (vertexPropertyOrder (ply_header buffer)))
                      (split_lines (drop (dataStart buffer) buffer)) 0
                      (replicate (nat (int N * 3)) (IntV 0)) (replicate (nat (int N * 3)) (IntV 0))
                    = (positions ps, colors ps))
              \<or> ((format (ply_header buffer) = Some ''binary_little_endian''
                   \<or> format (ply_header buffer) = Some ''binary_big_endian'')
                  \<and> binary_loop (nat (int N)) (drop (dataStart buffer) buffer)
                       (format (ply_header buffer) = Some ''binary_little_endian'')
                       (hasColor (property_indices (vertexPropertyOrder (ply_header buffer))))
                       (zip (vertexPropertyOrder (ply_header buffer))
                            (vertexPropertyTypes (ply_header buffer)))
                       (bytesPerVertex (vertexPropertyTypes (ply_header buffer))) 0 0
                       (replicate (nat (int N * 3)) (IntV 0)) (replicate (nat (int N * 3)) (IntV 0))
                     = Inr (positions ps, colors ps)))"
    by auto
  then have "0 < length (vertexPropertyOrder (ply_header buffer))"
    by (cases "vertexPropertyOrder (ply_header buffer)") auto
  with * show ?thesis
    unfolding arr data_lines_def by auto
qed





section \<open>What the header loop records\<close>

text \<open>
  A header in which no line starts with the token \<open>format\<close> leaves the format unset,
  and one in which no line starts with \<open>element\<close> leaves the vertex count 0.
\<close>

lemma header_step_keeps_format:
  "nth_opt (split_ws (trim line)) 0 \<noteq> Some ''format'' \<Longrightarrow>
   format (header_step st line) = format st"
  by (simp add: header_step_def Let_def del: not_None_eq)

lemma header_step_keeps_count:
  "nth_opt (split_ws (trim line)) 0 \<noteq> Some ''element'' \<Longrightarrow>
   vertexCount (header_step st line) = vertexCount st"
  by (simp add: header_step_def Let_def del: not_None_eq)

lemma no_format_line:
  "\<forall>line \<in> set headerLines. nth_opt (split_ws (trim line)) 0 \<noteq> Some ''format'' \<Longrightarrow>
   format (foldl header_step st headerLines) = format st"
  by (induction headerLines arbitrary: st) (simp_all add: header_step_keeps_format del: not_None_eq)

lemma no_element_line:
  "\<forall>line \<in> set headerLines. nth_opt (split_ws (trim line)) 0 \<noteq> Some ''element'' \<Longrightarrow>
   vertexCount (foldl header_step st headerLines) = vertexCount st"
  by (induction headerLines arbitrary: st) (simp_all add: header_step_keeps_count del: not_None_eq)

lemma header_without_format_line:
  "\<forall>line \<in> set headerLines. nth_opt (split_ws (trim line)) 0 \<noteq> Some ''format'' \<Longrightarrow>
   format_falsy (format (parse_header_lines headerLines))"
  by (simp add: parse_header_lines_def no_format_line header_init_def format_falsy_def
        del: not_None_eq)

lemma header_without_element_line:
  "\<forall>line \<in> set headerLines. nth_opt (split_ws (trim line)) 0 \<noteq> Some ''element'' \<Longrightarrow>
   count_falsy (vertexCount (parse_header_lines headerLines))"
  by (simp add: parse_header_lines_def no_element_line header_init_def count_falsy_def
        del: not_None_eq)

text \<open>
  In text mode a colour channel is read at the index of its long name whenever the long
  name is declared.
\<close>

lemma array_indexOf_Some:
  "array_indexOf xs v = Some i \<Longrightarrow> i < length xs \<and> xs ! i = v \<and> v \<notin> set (take i xs)"
proof (induction xs arbitrary: i)
  case Nil
  then show ?case by simp
next
  case (Cons x xs)
  show ?case
  proof (cases "x = v")
    case True
    with Cons.prems show ?thesis by simp
  next
    case False
    with Cons.prems obtain j where j: "array_indexOf xs v = Some j" "i = Suc j" by auto
    from Cons.IH [OF j(1)] j(2) False show ?thesis by simp
  qed
qed

lemma colour_index_prefers_long:
  "long \<in> set order \<Longrightarrow> colour_index order long short = array_indexOf order long"
  by (simp add: colour_index_def array_indexOf_None_iff)

lemma text_mode_reads_long_names:
  assumes "''red'' \<in> set order" "''green'' \<in> set order" "''blue'' \<in> set order"
  shows "hasColor (property_indices order)
       \<and> rIndex (property_indices order) = array_indexOf order ''red''
       \<and> gIndex (property_indices order) = array_indexOf order ''green''
       \<and> bIndex (property_indices order) = array_indexOf order ''blue''"
  using assms
  by (simp add: hasColor_iff) (simp add: property_indices_def colour_index_prefers_long)

section \<open>The scenario of the specification\<close>

text \<open>
  The header of the scenario followed by any data: the terminator is found at offset
  164, the header is parsed as declared, and the data offset is 175 plus the number of
  leading whitespace bytes of the data.
\<close>

lemma scenario_header_length: "length scenario_header = 175"
  by code_simp

lemma scenario_header_index: "indexOf scenario_header ''end_header'' = Some 164"
  by code_simp

lemma startsWith_append: "startsWith s p \<Longrightarrow> startsWith (s @ t) p"
  by (auto simp: startsWith_iff)

lemma startsWith_append_iff:
  "length p \<le> length s \<Longrightarrow> startsWith (s @ t) p \<longleftrightarrow> startsWith s p"
  by (simp add: startsWith_def)

lemma indexOf_append: "indexOf s p = Some i \<Longrightarrow> indexOf (s @ t) p = Some i"
proof (induction s arbitrary: i)
  case Nil
  then show ?case by (cases t) (simp_all add: startsWith_def split: if_splits)
next
  case (Cons c cs)
  show ?case
  proof (cases "startsWith (c # cs) p")
    case True
    with Cons.prems startsWith_append [OF True, of t] show ?thesis by simp
  next
    case False
    with Cons.prems obtain j where j: "indexOf cs p = Some j" "i = Suc j" by auto
    from indexOf_Some_bound [OF j(1)] have "length p \<le> length (c # cs)" by simp
    with False have "\<not> startsWith ((c # cs) @ t) p"
      using startsWith_append_iff [of p "c # cs" t] by blast
    with j Cons.IH [OF j(1)] show ?thesis by simp
  qed
qed

lemma scenario_headerEndIndex: "headerEndIndex (scenario_header @ records) = Some 164"
proof -
  have "take 65536 (scenario_header @ records) = scenario_header @ take (65536 - 175) records"
    by (simp add: scenario_header_length)
  then show ?thesis
    by (simp add: headerEndIndex_def textHeader_def indexOf_append [OF scenario_header_index])
qed

lemma scenario_ply_header:
  "ply_header (scenario_header @ records) =
     \<lparr>format = Some ''binary_little_endian'', vertexCount = Some 2,
       vertexPropertyOrder = [''x'', ''y'', ''z'', ''red'', ''green'', ''blue''],
       vertexPropertyTypes = [Some ''float'', Some ''float'', Some ''float'', Some ''uchar'', Some ''uchar'', Some ''uchar''],
       inVertexElement = True\<rparr>"
proof -
  have "take 174 (textHeader (scenario_header @ records)) = take 174 scenario_header"
    by (simp add: textHeader_def scenario_header_length)
  moreover have "parse_header_lines (split_lines (take 174 scenario_header)) =
     \<lparr>format = Some ''binary_little_endian'', vertexCount = Some 2,
       vertexPropertyOrder = [''x'', ''y'', ''z'', ''red'', ''green'', ''blue''],
       vertexPropertyTypes = [Some ''float'', Some ''float'', Some ''float'', Some ''uchar'', Some ''uchar'', Some ''uchar''],
       inVertexElement = True\<rparr>"
    by code_simp
  ultimately show ?thesis
    by (simp add: ply_header_def headerLength_def scenario_headerEndIndex)
qed

lemma scenario_dataStart:
  "dataStart (scenario_header @ records) = 175 + length (takeWhile is_ws (take (65536 - 175) records))"
proof -
  have "drop 174 scenario_header = [CHR 0x0A]" by code_simp
  then have "drop 174 (textHeader (scenario_header @ records)) = CHR 0x0A # take (65536 - 175) records"
    by (simp add: textHeader_def scenario_header_length)
  then show ?thesis
    by (simp add: dataStart_def headerLength_def scenario_headerEndIndex search_nonws_def is_ws_def)
qed

text \<open>
  Two records that do not start with a whitespace byte are decoded as the scenario
  expects: positions are the floats of the record, colours the bytes divided by 255.
\<close>

lemma scenario_read_vertex:
  "length pre = off \<Longrightarrow> read_vertex (pre @ [a0, a1, a2, a3, a4, a5, a6, a7, a8, a9, a10, a11, a12, a13, a14] @ post) True True
     [(''x'', Some ''float''), (''y'', Some ''float''), (''z'', Some ''float''), (''red'', Some ''uchar''), (''green'', Some ''uchar''), (''blue'', Some ''uchar'')] off vertex_init =
   Inr \<lparr>vx = F32 (of_int (le_int [a0, a1, a2, a3])), vy = F32 (of_int (le_int [a4, a5, a6, a7])), vz = F32 (of_int (le_int [a8, a9, a10, a11])),
        vr = Div255 (IntV (of_char a12)), vg = Div255 (IntV (of_char a13)), vb = Div255 (IntV (of_char a14))\<rparr>"
  by (auto simp: readProperty_def getFloat32_def getUint_def view_bytes_def propertySize_def
        assign_property_def vertex_init_def)

lemma store3_six:
  "store3 [z0, z1, z2, z3, z4, z5] 0 a b c = [fround a, fround b, fround c, z3, z4, z5]"
  "store3 [z0, z1, z2, z3, z4, z5] (Suc 0) a b c = [z0, z1, z2, fround a, fround b, fround c]"
  by (simp_all add: store3_def numeral_eq_Suc)

lemma replicate_six: "replicate 6 x = [x, x, x, x, x, x]"
  by (simp add: numeral_eq_Suc)

lemma scenario_decodes_unless_first_byte_is_whitespace:
  assumes "\<not> is_ws a0"
  shows "parsePly (scenario_header @
     [a0, a1, a2, a3, a4, a5, a6, a7, a8, a9, a10, a11, a12, a13, a14,
      b0, b1, b2, b3, b4, b5, b6, b7, b8, b9, b10, b11, b12, b13, b14]) =
   Inr \<lparr>positions = [F32 (of_int (le_int [a0, a1, a2, a3])),
                     F32 (of_int (le_int [a4, a5, a6, a7])),
                     F32 (of_int (le_int [a8, a9, a10, a11])),
                     F32 (of_int (le_int [b0, b1, b2, b3])),
                     F32 (of_int (le_int [b4, b5, b6, b7])),
                     F32 (of_int (le_int [b8, b9, b10, b11]))],
        colors = [Fround (Div255 (IntV (of_char a12))),
                  Fround (Div255 (IntV (of_char a13))),
                  Fround (Div255 (IntV (of_char a14))),
                  Fround (Div255 (IntV (of_char b12))),
                  Fround (Div255 (IntV (of_char b13))),
                  Fround (Div255 (IntV (of_char b14)))],
        count = 2\<rparr>"
proof -
  let ?recs = "[a0, a1, a2, a3, a4, a5, a6, a7, a8, a9, a10, a11, a12, a13, a14,
      b0, b1, b2, b3, b4, b5, b6, b7, b8, b9, b10, b11, b12, b13, b14]"
  have start: "dataStart (scenario_header @ ?recs) = 175"
    using assms by (simp add: scenario_dataStart)
  have view: "drop 175 (scenario_header @ ?recs) = ?recs"
    by (simp add: scenario_header_length)
  have ix: "property_indices [''x'', ''y'', ''z'', ''red'', ''green'', ''blue''] =
      \<lparr>xIndex = Some 0, yIndex = Some 1, zIndex = Some 2,
       rIndex = Some 3, gIndex = Some 4, bIndex = Some 5\<rparr>"
    by code_simp
  have stride: "bytesPerVertex [Some ''float'', Some ''float'', Some ''float'',
      Some ''uchar'', Some ''uchar'', Some ''uchar''] = 15"
    by code_simp
  have first: "read_vertex ?recs True True [(''x'', Some ''float''), (''y'', Some ''float''), (''z'', Some ''float''), (''red'', Some ''uchar''), (''green'', Some ''uchar''), (''blue'', Some ''uchar'')] 0 vertex_init = Inr \<lparr>vx = F32 (of_int (le_int [a0, a1, a2, a3])), vy = F32 (of_int (le_int [a4, a5, a6, a7])), vz = F32 (of_int (le_int [a8, a9, a10, a11])),
        vr = Div255 (IntV (of_char a12)), vg = Div255 (IntV (of_char a13)), vb = Div255 (IntV (of_char a14))\<rparr>"
    using scenario_read_vertex [of "[]" 0 a0 a1 a2 a3 a4 a5 a6 a7 a8 a9 a10 a11 a12 a13 a14 "[b0, b1, b2, b3, b4, b5, b6, b7, b8, b9, b10, b11, b12, b13, b14]"] by (simp del: read_vertex.simps)
  have second: "read_vertex ?recs True True [(''x'', Some ''float''), (''y'', Some ''float''), (''z'', Some ''float''), (''red'', Some ''uchar''), (''green'', Some ''uchar''), (''blue'', Some ''uchar'')] 15 vertex_init = Inr \<lparr>vx = F32 (of_int (le_int [b0, b1, b2, b3])), vy = F32 (of_int (le_int [b4, b5, b6, b7])), vz = F32 (of_int (le_int [b8, b9, b10, b11])),
        vr = Div255 (IntV (of_char b12)), vg = Div255 (IntV (of_char b13)), vb = Div255 (IntV (of_char b14))\<rparr>"
    using scenario_read_vertex [of "[a0, a1, a2, a3, a4, a5, a6, a7, a8, a9, a10, a11, a12, a13, a14]" 15 b0 b1 b2 b3 b4 b5 b6 b7 b8 b9 b10 b11 b12 b13 b14 "[]"] by (simp del: read_vertex.simps)
  have loop: "binary_loop (Suc (Suc 0)) ?recs True True [(''x'', Some ''float''), (''y'', Some ''float''), (''z'', Some ''float''), (''red'', Some ''uchar''), (''green'', Some ''uchar''), (''blue'', Some ''uchar'')] 15 0 0
      (replicate 6 (IntV 0)) (replicate 6 (IntV 0)) =
    Inr ([F32 (of_int (le_int [a0, a1, a2, a3])),
                     F32 (of_int (le_int [a4, a5, a6, a7])),
                     F32 (of_int (le_int [a8, a9, a10, a11])),
                     F32 (of_int (le_int [b0, b1, b2, b3])),
                     F32 (of_int (le_int [b4, b5, b6, b7])),
                     F32 (of_int (le_int [b8, b9, b10, b11]))],
         [Fround (Div255 (IntV (of_char a12))),
                  Fround (Div255 (IntV (of_char a13))),
                  Fround (Div255 (IntV (of_char a14))),
                  Fround (Div255 (IntV (of_char b12))),
                  Fround (Div255 (IntV (of_char b13))),
                  Fround (Div255 (IntV (of_char b14)))])"
    by (simp add: first second store3_six replicate_six del: read_vertex.simps)
  note loop2 = loop [folded numeral_2_eq_2]
  show ?thesis
    unfolding parsePly_def scenario_headerEndIndex scenario_ply_header start
    by (simp add: decode_points_def format_falsy_def count_falsy_def ix hasColor_def
          newFloat32Array_def max_array_length_def view stride loop2
          del: binary_loop.simps drop_append)
qed

section \<open>The example buffers, evaluated\<close>

lemma scenario_space_first_header: "headerEndIndex scenario_space_first = Some 164"
  unfolding scenario_space_first_def by (rule scenario_headerEndIndex)

lemma scenario_space_first_parsed:
  "ply_header scenario_space_first =
     \<lparr>format = Some ''binary_little_endian'', vertexCount = Some 2,
       vertexPropertyOrder = [''x'', ''y'', ''z'', ''red'', ''green'', ''blue''],
       vertexPropertyTypes = [Some ''float'', Some ''float'', Some ''float'', Some ''uchar'', Some ''uchar'', Some ''uchar''],
       inVertexElement = True\<rparr>"
  unfolding scenario_space_first_def by (rule scenario_ply_header)

lemma scenario_space_first_start: "dataStart scenario_space_first = 176"
  unfolding scenario_space_first_def scenario_dataStart by (simp add: is_ws_def)

lemma scenario_space_first_result:
  "parsePly scenario_space_first =
     Inl RangeError"
  unfolding parsePly_def scenario_space_first_header scenario_space_first_parsed scenario_space_first_start by code_simp

lemma scenario_plain_result:
  "parsePly scenario_plain =
     Inr \<lparr>positions = [F32 0x3F800000, F32 0x40000000, F32 0x40400000,
                      F32 0xBF800000, F32 0x3F000000, F32 0x3E800000],
          colors = [Fround (Div255 (IntV 255)), Fround (Div255 (IntV 128)),
                    Fround (Div255 (IntV 0)), Fround (Div255 (IntV 10)),
                    Fround (Div255 (IntV 20)), Fround (Div255 (IntV 30))],
          count = 2\<rparr>"
  unfolding scenario_plain_def
  by (subst scenario_decodes_unless_first_byte_is_whitespace) (simp_all add: is_ws_def)

lemma both_names_binary_header: "headerEndIndex both_names_binary = Some 181"
  by code_simp

lemma both_names_binary_parsed:
  "ply_header both_names_binary =
     \<lparr>format = Some ''binary_little_endian'', vertexCount = Some 1,
       vertexPropertyOrder = [''x'', ''y'', ''z'', ''red'', ''green'', ''blue'', ''r''],
       vertexPropertyTypes = [Some ''float'', Some ''float'', Some ''float'', Some ''uchar'', Some ''uchar'', Some ''uchar'', Some ''uchar''],
       inVertexElement = True\<rparr>"
  unfolding ply_header_def headerLength_def both_names_binary_header by code_simp

lemma both_names_binary_start: "dataStart both_names_binary = 192"
  unfolding dataStart_def headerLength_def both_names_binary_header by code_simp

lemma both_names_binary_result:
  "parsePly both_names_binary =
     Inr \<lparr>positions = [F32 0x3F800000, F32 0x40000000, F32 0x40400000],
          colors = [Fround (Div255 (IntV 7)), Fround (Div255 (IntV 128)),
                    Fround (Div255 (IntV 0))],
          count = 1\<rparr>"
  unfolding parsePly_def both_names_binary_header both_names_binary_parsed both_names_binary_start by code_simp

lemma both_names_text_header: "headerEndIndex both_names_text = Some 166"
  by code_simp

lemma both_names_text_parsed:
  "ply_header both_names_text =
     \<lparr>format = Some ''ascii'', vertexCount = Some 1,
       vertexPropertyOrder = [''x'', ''y'', ''z'', ''red'', ''green'', ''blue'', ''r''],
       vertexPropertyTypes = [Some ''float'', Some ''float'', Some ''float'', Some ''uchar'', Some ''uchar'', Some ''uchar'', Some ''uchar''],
       inVertexElement = True\<rparr>"
  unfolding ply_header_def headerLength_def both_names_text_header by code_simp

lemma both_names_text_start: "dataStart both_names_text = 177"
  unfolding dataStart_def headerLength_def both_names_text_header by code_simp

lemma both_names_text_result:
  "parsePly both_names_text =
     Inr \<lparr>positions = [Fround (ParsedFloat ''1''), Fround (ParsedFloat ''2''),
                      Fround (ParsedFloat ''3'')],
          colors = [Fround (Div255 (ParsedFloat ''255'')), Fround (Div255 (ParsedFloat ''128'')),
                    Fround (Div255 (ParsedFloat ''0''))],
          count = 1\<rparr>"
  unfolding parsePly_def both_names_text_header both_names_text_parsed both_names_text_start by code_simp

lemma ascii_short_header: "headerEndIndex ascii_short = Some 89"
  by code_simp

lemma ascii_short_parsed:
  "ply_header ascii_short =
     \<lparr>format = Some ''ascii'', vertexCount = Some 2,
       vertexPropertyOrder = [''x'', ''y'', ''z''],
       vertexPropertyTypes = [Some ''float'', Some ''float'', Some ''float''],
       inVertexElement = True\<rparr>"
  unfolding ply_header_def headerLength_def ascii_short_header by code_simp

lemma ascii_short_start: "dataStart ascii_short = 100"
  unfolding dataStart_def headerLength_def ascii_short_header by code_simp

lemma ascii_short_result:
  "parsePly ascii_short =
     Inr \<lparr>positions = [Fround (ParsedFloat ''1''), Fround (ParsedFloat ''2''),
                      Fround (ParsedFloat ''3''), IntV 0, IntV 0, IntV 0],
          colors = [IntV 1, IntV 1, IntV 1, IntV 0, IntV 0, IntV 0],
          count = 2\<rparr>"
  unfolding parsePly_def ascii_short_header ascii_short_parsed ascii_short_start by code_simp

lemma mixed_names_header: "headerEndIndex mixed_names = Some 142"
  by code_simp

lemma mixed_names_parsed:
  "ply_header mixed_names =
     \<lparr>format = Some ''ascii'', vertexCount = Some 1,
       vertexPropertyOrder = [''x'', ''y'', ''z'', ''red'', ''g'', ''b''],
       vertexPropertyTypes = [Some ''float'', Some ''float'', Some ''float'', Some ''uchar'', Some ''uchar'', Some ''uchar''],
       inVertexElement = True\<rparr>"
  unfolding ply_header_def headerLength_def mixed_names_header by code_simp

lemma mixed_names_start: "dataStart mixed_names = 153"
  unfolding dataStart_def headerLength_def mixed_names_header by code_simp

lemma mixed_names_result:
  "parsePly mixed_names =
     Inr \<lparr>positions = [Fround (ParsedFloat ''1''), Fround (ParsedFloat ''2''),
                      Fround (ParsedFloat ''3'')],
          colors = [Fround (Div255 (ParsedFloat ''255'')), Fround (Div255 (ParsedFloat ''0'')),
                    Fround (Div255 (ParsedFloat ''0''))],
          count = 1\<rparr>"
  unfolding parsePly_def mixed_names_header mixed_names_parsed mixed_names_start by code_simp

lemma negative_count_header: "headerEndIndex negative_count = Some 84"
  by code_simp

lemma negative_count_parsed:
  "ply_header negative_count =
     \<lparr>format = Some ''foo'', vertexCount = Some (- 1),
       vertexPropertyOrder = [''x'', ''y'', ''z''],
       vertexPropertyTypes = [Some ''float'', Some ''float'', Some ''float''],
       inVertexElement = True\<rparr>"
  unfolding ply_header_def headerLength_def negative_count_header by code_simp

lemma negative_count_start: "dataStart negative_count = 95"
  unfolding dataStart_def headerLength_def negative_count_header by code_simp

lemma negative_count_result:
  "parsePly negative_count =
     Inl RangeError"
  unfolding parsePly_def negative_count_header negative_count_parsed negative_count_start by code_simp

lemma unsupported_foo_header: "headerEndIndex unsupported_foo = Some 83"
  by code_simp

lemma unsupported_foo_parsed:
  "ply_header unsupported_foo =
     \<lparr>format = Some ''foo'', vertexCount = Some 1,
       vertexPropertyOrder = [''x'', ''y'', ''z''],
       vertexPropertyTypes = [Some ''float'', Some ''float'', Some ''float''],
       inVertexElement = True\<rparr>"
  unfolding ply_header_def headerLength_def unsupported_foo_header by code_simp

lemma unsupported_foo_start: "dataStart unsupported_foo = 94"
  unfolding dataStart_def headerLength_def unsupported_foo_header by code_simp

lemma unsupported_foo_result:
  "parsePly unsupported_foo =
     Inl (UnsupportedFormat ''foo'')"
  unfolding parsePly_def unsupported_foo_header unsupported_foo_parsed unsupported_foo_start by code_simp

lemma big_count_header: "headerEndIndex big_count = Some 95"
  by code_simp

lemma big_count_parsed:
  "ply_header big_count =
     \<lparr>format = Some ''foo'', vertexCount = Some 1000000000000,
       vertexPropertyOrder = [''x'', ''y'', ''z''],
       vertexPropertyTypes = [Some ''float'', Some ''float'', Some ''float''],
       inVertexElement = True\<rparr>"
  unfolding ply_header_def headerLength_def big_count_header by code_simp

lemma big_count_start: "dataStart big_count = 106"
  unfolding dataStart_def headerLength_def big_count_header by code_simp

text \<open>
  On an engine that refuses arrays of more than \<open>2 ^ 32 - 1\<close> entries the count
  10^12 makes the allocation raise before the format token is looked at.
\<close>

lemma big_count_refused:
  "parsePly_on (\<lambda>k n. n \<le> 4294967295) big_count = Inl RangeError"
  unfolding parsePly_on_def big_count_header big_count_parsed big_count_start by code_simp

lemma comment_terminator_header: "headerEndIndex comment_terminator = Some 97"
  by code_simp

lemma comment_terminator_parsed:
  "ply_header comment_terminator =
     \<lparr>format = Some ''ascii'', vertexCount = Some 1,
       vertexPropertyOrder = [''x'', ''y'', ''z''],
       vertexPropertyTypes = [Some ''float'', Some ''float'', Some ''float''],
       inVertexElement = True\<rparr>"
  unfolding ply_header_def headerLength_def comment_terminator_header by code_simp

lemma comment_terminator_start: "dataStart comment_terminator = 108"
  unfolding dataStart_def headerLength_def comment_terminator_header by code_simp

lemma comment_terminator_result:
  "parsePly comment_terminator =
     Inr \<lparr>positions = [Fround (ParsedFloat ''1''), Fround (ParsedFloat ''2''),
                      Fround (ParsedFloat ''3'')],
          colors = [IntV 1, IntV 1, IntV 1],
          count = 1\<rparr>"
  unfolding parsePly_def comment_terminator_header comment_terminator_parsed
    comment_terminator_start by code_simp

section \<open>Properties of structured buffers\<close>

lemma ascii_short_usable: "usable_lines ascii_short = 1"
  unfolding usable_lines_def data_lines_def ascii_short_parsed ascii_short_start by code_simp

text \<open>
  C1: for the header of the scenario followed by two 15-byte records, decoding should
  return two points with the encoded positions and with colours byte/255. Here the code
  is evaluated on such an input whose first data byte is 0x20: the data offset, meant to
  skip the newline after the terminator, also skips that byte (offset 176 instead of
  175), the view is one byte short and the last read raises.
\<close>

theorem scenario_with_whitespace_first_byte:
  "isPlyBuffer scenario_space_first \<and> length scenario_space_first = 175 + 15 + 15
   \<and> headerLength scenario_space_first = 174 \<and> dataStart scenario_space_first = 176
   \<and> parsePly scenario_space_first = Inl RangeError
   \<and> loadSimpleSplatFromArrayBuffer scenario_space_first = Inl RangeError"
proof -
  have ply: "isPlyBuffer scenario_space_first" by code_simp
  have len: "length scenario_space_first = 175 + 15 + 15" by code_simp
  have hl: "headerLength scenario_space_first = 174"
    unfolding headerLength_def scenario_space_first_header by simp
  from ply scenario_space_first_result have "loadSimpleSplatFromArrayBuffer scenario_space_first = Inl RangeError"
    by (simp add: loadSimpleSplatFromArrayBuffer_def)
  with ply len hl scenario_space_first_start scenario_space_first_result show ?thesis by blast
qed

text \<open>
  C2: when a structured buffer decodes without error and its header declares \<open>N\<close>
  vertices, the result has count \<open>N\<close> and its position and colour arrays have
  \<open>3N\<close> entries each. (That \<open>x\<close>, \<open>y\<close>, \<open>z\<close> are declared follows from the success.)
\<close>

theorem decoded_count_and_lengths:
  assumes "parsePly buffer = Inr ps" and "vertexCount (ply_header buffer) = Some (int N)"
  shows "count ps = N \<and> length (positions ps) = 3 * N \<and> length (colors ps) = 3 * N"
  using parsePly_Inr_cases [OF assms]
  by (auto dest!: ascii_loop_length binary_loop_length)

theorem decoded_count_and_lengths_witness:
  "parsePly ascii_short = Inr ascii_short_points
   \<and> vertexCount (ply_header ascii_short) = Some (int 2)
   \<and> count ascii_short_points = 2
   \<and> length (positions ascii_short_points) = 3 * 2
   \<and> length (colors ascii_short_points) = 3 * 2"
proof -
  have res: "parsePly ascii_short = Inr ascii_short_points"
    unfolding ascii_short_points_def by (rule ascii_short_result)
  have cnt: "vertexCount (ply_header ascii_short) = Some (int 2)"
    unfolding ascii_short_parsed by simp
  from decoded_count_and_lengths [OF res cnt] res cnt show ?thesis by blast
qed

text \<open>
  C3, as stated, fails: the terminator is searched as a substring, not as a line. In
  this buffer no line is \<open>end_header\<close>, even after trimming; the characters occur
  inside a comment line, the header is taken to end there, and a point set is returned.
\<close>

theorem terminator_inside_comment_line:
  "isPlyBuffer comment_terminator
   \<and> ''end_header'' \<notin> set (map trim (split_lines (take 65536 comment_terminator)))
   \<and> parsePly comment_terminator =
       Inr \<lparr>positions = [Fround (ParsedFloat ''1''), Fround (ParsedFloat ''2''),
                        Fround (ParsedFloat ''3'')],
            colors = [IntV 1, IntV 1, IntV 1],
            count = 1\<rparr>
   \<and> loadSimpleSplatFromArrayBuffer comment_terminator =
       Inr ([], Some \<lparr>positions = [Fround (ParsedFloat ''1''), Fround (ParsedFloat ''2''),
                                  Fround (ParsedFloat ''3'')],
                      colors = [IntV 1, IntV 1, IntV 1],
                      count = 1\<rparr>)"
proof -
  have ply: "isPlyBuffer comment_terminator" by code_simp
  have noline: "''end_header'' \<notin> set (map trim (split_lines (take 65536 comment_terminator)))"
    by code_simp
  from ply comment_terminator_result ply noline show ?thesis
    by (simp add: loadSimpleSplatFromArrayBuffer_def)
qed

text \<open>
  C4, as stated, fails: with an unsupported format token and the vertex count -1 the
  allocation of the arrays raises a RangeError before the format is looked at.
\<close>

theorem unsupported_format_with_negative_count:
  "headerEndIndex negative_count = Some 84
   \<and> format (ply_header negative_count) = Some ''foo''
   \<and> \<not> supported_format (format (ply_header negative_count))
   \<and> parsePly negative_count = Inl RangeError
   \<and> \<not> is_format_error RangeError"
  unfolding negative_count_parsed
  using negative_count_header negative_count_result
  by (simp add: supported_format_def)

text \<open>
  C4, amended: when the header is found, decoding fails with one of the loader's own
  errors exactly when the format token is missing, or the vertex count is missing or
  zero, or \<open>x\<close>, \<open>y\<close>, \<open>z\<close> are not all declared, or the format token is none of
  the three supported ones and the engine allocates the two arrays of three times the
  count entries. This holds whatever the engine grants; a successful decode has none of
  these defects.
\<close>

theorem header_format_errors:
  assumes found: "headerEndIndex buffer \<noteq> None"
  shows "((\<exists>e. parsePly_on grants buffer = Inl e \<and> is_format_error e) \<longleftrightarrow>
            format_falsy (format (ply_header buffer))
          \<or> count_falsy (vertexCount (ply_header buffer))
          \<or> \<not> has_xyz (vertexPropertyOrder (ply_header buffer))
          \<or> (\<not> supported_format (format (ply_header buffer))
              \<and> allocated grants (vertexCount (ply_header buffer))))
       \<and> (\<forall>ps. parsePly_on grants buffer = Inr ps \<longrightarrow>
            \<not> format_falsy (format (ply_header buffer))
          \<and> \<not> count_falsy (vertexCount (ply_header buffer))
          \<and> has_xyz (vertexPropertyOrder (ply_header buffer))
          \<and> supported_format (format (ply_header buffer))
          \<and> allocated grants (vertexCount (ply_header buffer)))"
proof -
  let ?h = "ply_header buffer"
  let ?d = "decode_points_on grants ?h buffer (dataStart buffer)"
  have eq: "parsePly_on grants buffer = ?d" by (rule parsePly_on_found [OF found])
  consider (a) "format_falsy (format ?h)"
    | (b) "\<not> format_falsy (format ?h)" "count_falsy (vertexCount ?h)"
    | (c) "\<not> format_falsy (format ?h)" "\<not> count_falsy (vertexCount ?h)"
          "\<not> has_xyz (vertexPropertyOrder ?h)"
    | (r) "\<not> format_falsy (format ?h)" "\<not> count_falsy (vertexCount ?h)"
          "has_xyz (vertexPropertyOrder ?h)" "\<not> allocated grants (vertexCount ?h)"
    | (d) "\<not> format_falsy (format ?h)" "\<not> count_falsy (vertexCount ?h)"
          "has_xyz (vertexPropertyOrder ?h)" "allocated grants (vertexCount ?h)"
          "\<not> supported_format (format ?h)"
    | (s) "\<not> format_falsy (format ?h)" "\<not> count_falsy (vertexCount ?h)"
          "has_xyz (vertexPropertyOrder ?h)" "allocated grants (vertexCount ?h)"
          "supported_format (format ?h)"
    by blast
  then show ?thesis
  proof cases
    case a
    then show ?thesis
      using decode_points_on_header_errors(1) [of ?h grants buffer "dataStart buffer"]
      by (simp add: eq)
  next
    case b
    then show ?thesis
      using decode_points_on_header_errors(2) [of ?h grants buffer "dataStart buffer"]
      by (simp add: eq)
  next
    case c
    then show ?thesis
      using decode_points_on_header_errors(3) [of ?h grants buffer "dataStart buffer"]
      by (simp add: eq)
  next
    case r
    then show ?thesis
      using decode_points_on_alloc_error [of ?h grants buffer "dataStart buffer"]
      by (simp add: eq)
  next
    case d
    then show ?thesis
      using decode_points_on_unsupported [of ?h grants buffer "dataStart buffer"]
      by (simp add: eq)
  next
    case s
    have "\<not> is_format_error e" if "?d = Inl e" for e
      using decode_points_on_supported [OF s that] by simp
    with s show ?thesis by (auto simp: eq)
  qed
qed

theorem header_format_errors_witness:
  "headerEndIndex unsupported_foo \<noteq> None
   \<and> \<not> supported_format (format (ply_header unsupported_foo))
   \<and> allocated (\<lambda>k n. True) (vertexCount (ply_header unsupported_foo))
   \<and> (\<exists>e. parsePly_on (\<lambda>k n. True) unsupported_foo = Inl e \<and> is_format_error e)"
proof -
  have found: "headerEndIndex unsupported_foo \<noteq> None"
    by (simp add: unsupported_foo_header)
  have unsup: "\<not> supported_format (format (ply_header unsupported_foo))"
    unfolding unsupported_foo_parsed by (simp add: supported_format_def)
  have alloc: "allocated (\<lambda>k n. True) (vertexCount (ply_header unsupported_foo))"
    unfolding unsupported_foo_parsed by (simp add: allocated_def max_array_length_def)
  from header_format_errors [OF found, of "\<lambda>k n. True"] unsup alloc
  have "\<exists>e. parsePly_on (\<lambda>k n. True) unsupported_foo = Inl e \<and> is_format_error e" by blast
  with found unsup alloc show ?thesis by blast
qed

text \<open>
  C5: when a long colour name and its single letter are both declared, the long-form
  property should give the channel in both encodings. Here the code is evaluated on one
  point with \<open>red\<close> = 255 and, declared after it, \<open>r\<close> = 7: binary mode takes the red
  channel from \<open>r\<close> (the last assignment in the property loop wins), text mode takes it
  from \<open>red\<close>.
\<close>

theorem later_short_name_wins_in_binary:
  "vertexPropertyOrder (ply_header both_names_binary)
     = [''x'', ''y'', ''z'', ''red'', ''green'', ''blue'', ''r'']
   \<and> map_sum id (\<lambda>ps. colors ps ! 0) (parsePly both_names_binary)
       = Inr (Fround (Div255 (IntV 7)))
   \<and> vertexPropertyOrder (ply_header both_names_text)
     = [''x'', ''y'', ''z'', ''red'', ''green'', ''blue'', ''r'']
   \<and> map_sum id (\<lambda>ps. colors ps ! 0) (parsePly both_names_text)
       = Inr (Fround (Div255 (ParsedFloat ''255'')))"
  unfolding both_names_binary_parsed both_names_text_parsed
    both_names_binary_result both_names_text_result
  by simp

text \<open>
  C6, as stated, fails in two ways. In text mode a point for which the data section has
  no line keeps the colour (0,0,0). And the properties \<open>red\<close>, \<open>g\<close>, \<open>b\<close> hold
  neither the three long names nor the three letters, yet the colour is decoded from them.
\<close>

theorem colour_not_white_examples:
  "vertexPropertyOrder (ply_header ascii_short) = [''x'', ''y'', ''z'']
   \<and> parsePly ascii_short =
       Inr \<lparr>positions = [Fround (ParsedFloat ''1''), Fround (ParsedFloat ''2''),
                        Fround (ParsedFloat ''3''), IntV 0, IntV 0, IntV 0],
            colors = [IntV 1, IntV 1, IntV 1, IntV 0, IntV 0, IntV 0],
            count = 2\<rparr>
   \<and> vertexPropertyOrder (ply_header mixed_names) = [''x'', ''y'', ''z'', ''red'', ''g'', ''b'']
   \<and> parsePly mixed_names =
       Inr \<lparr>positions = [Fround (ParsedFloat ''1''), Fround (ParsedFloat ''2''),
                        Fround (ParsedFloat ''3'')],
            colors = [Fround (Div255 (ParsedFloat ''255'')), Fround (Div255 (ParsedFloat ''0'')),
                      Fround (Div255 (ParsedFloat ''0''))],
            count = 1\<rparr>"
  unfolding ascii_short_parsed mixed_names_parsed ascii_short_result mixed_names_result
  by simp

text \<open>
  C6, amended: when a structured buffer decodes without error and, for at least one
  channel, neither the long name nor the single letter is declared, every point of a
  binary buffer and every point of a text buffer that was read from a usable data line
  has colour (1,1,1); the text-mode points beyond the usable lines have colour (0,0,0).
\<close>

theorem colour_default_white:
  assumes ok: "parsePly buffer = Inr ps"
    and nocol: "\<not> ((''red'' \<in> set (vertexPropertyOrder (ply_header buffer))
                    \<or> ''r'' \<in> set (vertexPropertyOrder (ply_header buffer)))
                 \<and> (''green'' \<in> set (vertexPropertyOrder (ply_header buffer))
                    \<or> ''g'' \<in> set (vertexPropertyOrder (ply_header buffer)))
                 \<and> (''blue'' \<in> set (vertexPropertyOrder (ply_header buffer))
                    \<or> ''b'' \<in> set (vertexPropertyOrder (ply_header buffer))))"
  shows "\<forall>i<3 * count ps.
           colors ps ! i =
             (if format (ply_header buffer) = Some ''ascii'' \<and> 3 * usable_lines buffer \<le> i
              then IntV 0 else IntV 1)"
proof -
  let ?order = "vertexPropertyOrder (ply_header buffer)"
  let ?ix = "property_indices ?order"
  from decode_points_Inr [OF parsePly_Inr [OF ok]] obtain vc where
    vc: "vertexCount (ply_header buffer) = Some vc" "0 < vc" by blast
  define N where "N = nat vc"
  with vc have cnt: "vertexCount (ply_header buffer) = Some (int N)" by simp
  let ?zero = "replicate (3 * N) (IntV 0)"
  from nocol have nc: "\<not> hasColor ?ix" using hasColor_iff [of ?order] by blast
  note cases = parsePly_Inr_cases [OF ok cnt]
  then have count: "count ps = N" and np: "0 < length ?order" by simp_all
  show ?thesis
  proof (cases "format (ply_header buffer) = Some ''ascii''")
    case True
    with cases have run: "ascii_loop N (length ?order) ?ix (data_lines buffer) 0 ?zero ?zero
        = (positions ps, colors ps)" by simp
    have "colors ps ! i = (if 3 * usable_lines buffer \<le> i then IntV 0 else IntV 1)"
      if "i < 3 * N" for i
      using ascii_loop_white [OF run nc np, of i] that
      by (auto simp: usable_lines_def min_def)
    with True count show ?thesis by simp
  next
    case False
    with cases nc have run: "binary_loop N (drop (dataStart buffer) buffer)
        (format (ply_header buffer) = Some ''binary_little_endian'') False
        (zip ?order (vertexPropertyTypes (ply_header buffer)))
        (bytesPerVertex (vertexPropertyTypes (ply_header buffer))) 0 0 ?zero ?zero
        = Inr (positions ps, colors ps)" by simp
    have "colors ps ! i = IntV 1" if "i < 3 * N" for i
      using binary_loop_white [OF run, of N i] that by simp
    with False count show ?thesis by simp
  qed
qed

theorem colour_default_white_witness:
  "parsePly ascii_short = Inr ascii_short_points
   \<and> ''red'' \<notin> set (vertexPropertyOrder (ply_header ascii_short))
   \<and> ''r'' \<notin> set (vertexPropertyOrder (ply_header ascii_short))
   \<and> colors ascii_short_points ! 0 = IntV 1 \<and> colors ascii_short_points ! 1 = IntV 1
   \<and> colors ascii_short_points ! 2 = IntV 1 \<and> colors ascii_short_points ! 3 = IntV 0
   \<and> colors ascii_short_points ! 4 = IntV 0 \<and> colors ascii_short_points ! 5 = IntV 0"
proof -
  have res: "parsePly ascii_short = Inr ascii_short_points"
    unfolding ascii_short_points_def by (rule ascii_short_result)
  have nored: "''red'' \<notin> set (vertexPropertyOrder (ply_header ascii_short))"
      "''r'' \<notin> set (vertexPropertyOrder (ply_header ascii_short))"
    unfolding ascii_short_parsed by simp_all
  then have nocol: "\<not> ((''red'' \<in> set (vertexPropertyOrder (ply_header ascii_short))
                    \<or> ''r'' \<in> set (vertexPropertyOrder (ply_header ascii_short)))
                 \<and> (''green'' \<in> set (vertexPropertyOrder (ply_header ascii_short))
                    \<or> ''g'' \<in> set (vertexPropertyOrder (ply_header ascii_short)))
                 \<and> (''blue'' \<in> set (vertexPropertyOrder (ply_header ascii_short))
                    \<or> ''b'' \<in> set (vertexPropertyOrder (ply_header ascii_short))))"
    by blast
  have cnt: "count ascii_short_points = 2" by (simp add: ascii_short_points_def)
  have fmt: "format (ply_header ascii_short) = Some ''ascii''"
    unfolding ascii_short_parsed by simp
  have all: "colors ascii_short_points ! i = (if 3 \<le> i then IntV 0 else IntV 1)" if "i < 6" for i
    using colour_default_white [OF res nocol] that cnt fmt ascii_short_usable by simp
  from all [of 0] all [of 1] all [of 2] all [of 3] all [of 4] all [of 5] res nored
  show ?thesis by simp
qed

text \<open>
  C10: in text mode, when fewer lines of the data section than the declared count
  \<open>N\<close> have at least as many tokens as there are declared properties, the result
  still has count \<open>N\<close>, and every point from the number of usable lines on has position
  (0,0,0) and colour (0,0,0).
\<close>

theorem text_mode_unfilled_points_are_zero:
  assumes ok: "parsePly buffer = Inr ps"
    and ascii: "format (ply_header buffer) = Some ''ascii''"
    and cnt: "vertexCount (ply_header buffer) = Some (int N)"
    and few: "usable_lines buffer < N"
  shows "count ps = N
       \<and> (\<forall>i. usable_lines buffer \<le> i \<and> i < N \<longrightarrow>
             positions ps ! (3 * i) = IntV 0 \<and> positions ps ! (3 * i + 1) = IntV 0
           \<and> positions ps ! (3 * i + 2) = IntV 0
           \<and> colors ps ! (3 * i) = IntV 0 \<and> colors ps ! (3 * i + 1) = IntV 0
           \<and> colors ps ! (3 * i + 2) = IntV 0)"
proof -
  let ?n = "length (vertexPropertyOrder (ply_header buffer))"
  let ?zero = "replicate (3 * N) (IntV 0)"
  from parsePly_Inr_cases [OF ok cnt] ascii
  have count: "count ps = N" and np: "0 < ?n"
    and run: "ascii_loop N ?n (property_indices (vertexPropertyOrder (ply_header buffer)))
                (data_lines buffer) 0 ?zero ?zero = (positions ps, colors ps)"
    by simp_all
  have zero: "positions ps ! j = IntV 0 \<and> colors ps ! j = IntV 0"
    if "3 * usable_lines buffer \<le> j" "j < 3 * N" for j
  proof -
    from that(1) have "3 * (0 + length (filter (usable_line ?n) (data_lines buffer))) \<le> j"
      by (simp add: usable_lines_def)
    from ascii_loop_untouched [OF run np this] that(2) show ?thesis by simp
  qed
  have "positions ps ! (3 * i) = IntV 0 \<and> positions ps ! (3 * i + 1) = IntV 0
           \<and> positions ps ! (3 * i + 2) = IntV 0
           \<and> colors ps ! (3 * i) = IntV 0 \<and> colors ps ! (3 * i + 1) = IntV 0
           \<and> colors ps ! (3 * i + 2) = IntV 0"
    if "usable_lines buffer \<le> i" "i < N" for i
    using zero [of "3 * i"] zero [of "3 * i + 1"] zero [of "3 * i + 2"] that by simp
  with count show ?thesis by blast
qed

theorem text_mode_unfilled_points_are_zero_witness:
  "parsePly ascii_short = Inr ascii_short_points
   \<and> format (ply_header ascii_short) = Some ''ascii''
   \<and> vertexCount (ply_header ascii_short) = Some (int 2)
   \<and> usable_lines ascii_short = 1
   \<and> count ascii_short_points = 2
   \<and> positions ascii_short_points ! 3 = IntV 0 \<and> positions ascii_short_points ! 4 = IntV 0
   \<and> positions ascii_short_points ! 5 = IntV 0
   \<and> colors ascii_short_points ! 3 = IntV 0 \<and> colors ascii_short_points ! 4 = IntV 0
   \<and> colors ascii_short_points ! 5 = IntV 0"
proof -
  have res: "parsePly ascii_short = Inr ascii_short_points"
    unfolding ascii_short_points_def by (rule ascii_short_result)
  have fmt: "format (ply_header ascii_short) = Some ''ascii''"
    unfolding ascii_short_parsed by simp
  have cnt: "vertexCount (ply_header ascii_short) = Some (int 2)"
    unfolding ascii_short_parsed by simp
  have few: "usable_lines ascii_short < 2" by (simp add: ascii_short_usable)
  note unfilled = text_mode_unfilled_points_are_zero [OF res fmt cnt few]
  from unfilled have c: "count ascii_short_points = 2" by blast
  from unfilled have "usable_lines ascii_short \<le> 1 \<and> (1::nat) < 2 \<longrightarrow>
        positions ascii_short_points ! (3 * 1) = IntV 0
      \<and> positions ascii_short_points ! (3 * 1 + 1) = IntV 0
      \<and> positions ascii_short_points ! (3 * 1 + 2) = IntV 0
      \<and> colors ascii_short_points ! (3 * 1) = IntV 0
      \<and> colors ascii_short_points ! (3 * 1 + 1) = IntV 0
      \<and> colors ascii_short_points ! (3 * 1 + 2) = IntV 0"
    by blast
  then have "positions ascii_short_points ! 3 = IntV 0 \<and> positions ascii_short_points ! 4 = IntV 0
      \<and> positions ascii_short_points ! 5 = IntV 0
      \<and> colors ascii_short_points ! 3 = IntV 0 \<and> colors ascii_short_points ! 4 = IntV 0
      \<and> colors ascii_short_points ! 5 = IntV 0"
    by (simp add: ascii_short_usable)
  with c res fmt cnt ascii_short_usable show ?thesis by simp
qed

end
